theory Spec2Isabelle
  imports Complex_Main "HOL-Library.Log_Nat"
begin

section \<open>Deck-to-video rendering: a model of \<^verbatim>\<open>src/utils/video_converter.py\<close>\<close>

text \<open>
  The module renders every slide of a parsed deck to a timed clip
  (\<^verbatim>\<open>create_slide_clip\<close>), wraps it in a transition (\<^verbatim>\<open>apply_transition_effect\<close>),
  concatenates and encodes the clips (\<^verbatim>\<open>convert_pptx_to_video\<close>) and checks the encoded
  file (\<^verbatim>\<open>convert_to_video\<close>). The model keeps the control flow of the source: every
  \<^verbatim>\<open>try\<close>/\<^verbatim>\<open>except\<close> is a case distinction on a sum type, every loop a recursive
  function, and pictures are kept symbolically as the sequence of drawing calls that
  produced them.
\<close>

subsection \<open>Python values\<close>

text \<open>
  The source probes its objects with \<^verbatim>\<open>hasattr\<close> and truth tests. An attribute is
  therefore absent (\<^verbatim>\<open>hasattr\<close> is false), present with the value \<^verbatim>\<open>None\<close>, or present
  with an object.
\<close>

datatype 'a attr = NoAttr | IsNone | Val 'a

text \<open>
  The exceptions met while a slide is rendered; \<open>ImageValueError\<close> is the
  \<^verbatim>\<open>ValueError\<close> of PIL. A property that is computed on access either returns or
  raises.
\<close>

datatype exc =
    AttributeError | TypeError | ZeroDivisionError | NameError | UnboundLocalError
  | NotImplementedError | UnidentifiedImageError | IndexError | ImageValueError

datatype 'a computed = Raises exc | Returns 'a

subsection \<open>Double-precision arithmetic\<close>

text \<open>
  The geometry is computed with Python's true division and float multiplication, both
  correctly rounded to the nearest binary64 value (ties to even), and truncated by
  \<^verbatim>\<open>int()\<close>. \<open>float_round\<close> rounds a rational to 53 significant bits; the exponent
  range is not bounded, which agrees with binary64 for magnitudes between
  \<open>2\<^sup>-\<^sup>1\<^sup>0\<^sup>2\<^sup>2\<close> and \<open>2\<^sup>1\<^sup>0\<^sup>2\<^sup>4\<close>.
\<close>

definition pow2 :: "int \<Rightarrow> rat" where
  "pow2 e = (if 0 \<le> e then 2 ^ nat e else 1 / 2 ^ nat (- e))"

definition round_half_even :: "rat \<Rightarrow> int" where
  "round_half_even x =
     (let f = \<lfloor>x\<rfloor>; r = x - of_int f
      in if r < 1 / 2 then f else if 1 / 2 < r then f + 1 else if even f then f else f + 1)"

text \<open>The exponent \<open>e\<close> with \<open>2\<^sup>e \<le> |x| < 2\<^sup>e\<^sup>+\<^sup>1\<close>, for \<open>x \<noteq> 0\<close>.\<close>

definition ilog2 :: "rat \<Rightarrow> int" where
  "ilog2 x =
     (let (a, b) = quotient_of \<bar>x\<bar>; e = bitlen a - bitlen b
      in if pow2 e \<le> \<bar>x\<bar> then e else e - 1)"

definition float_round :: "rat \<Rightarrow> rat" where
  "float_round x =
     (if x = 0 then 0
      else let u = pow2 (ilog2 x) / 2 ^ 52 in of_int (round_half_even (x / u)) * u)"

text \<open>\<^verbatim>\<open>int(x)\<close> on a float truncates towards zero.\<close>

definition float_to_int :: "rat \<Rightarrow> int" where
  "float_to_int x = (if 0 \<le> x then \<lfloor>x\<rfloor> else \<lceil>x\<rceil>)"

text \<open>
  \<^verbatim>\<open>int((coord / whole) * out)\<close>, the conversion of lines 220-223, 268-269, 302-306 and
  342-346. \<open>coord\<close> is \<open>None\<close> when the attribute is present with the value \<^verbatim>\<open>None\<close>
  (a placeholder that inherits its geometry): the division then raises \<^verbatim>\<open>TypeError\<close>;
  a zero \<open>whole\<close> raises \<^verbatim>\<open>ZeroDivisionError\<close>.
\<close>

definition emu_to_pixel :: "int \<Rightarrow> int \<Rightarrow> int \<Rightarrow> int" where
  "emu_to_pixel v whole out =
     float_to_int (float_round (float_round (of_int v / of_int whole) * of_int out))"

definition to_pixels :: "int option \<Rightarrow> int \<Rightarrow> int \<Rightarrow> exc + int" where
  "to_pixels coord whole out =
     (case coord of
        None \<Rightarrow> Inl TypeError
      | Some v \<Rightarrow>
          if whole = 0 then Inl ZeroDivisionError else Inr (emu_to_pixel v whole out))"

text \<open>\<^verbatim>\<open>obj.a if hasattr(obj, 'a') else default\<close>\<close>

definition attr_or :: "'a attr \<Rightarrow> 'a \<Rightarrow> 'a option" where
  "attr_or a d = (case a of NoAttr \<Rightarrow> Some d | IsNone \<Rightarrow> None | Val v \<Rightarrow> Some v)"

subsection \<open>The deck object model, as far as the renderer reads it\<close>

datatype color = RGB nat nat nat | RGBA nat nat nat nat

type_synonym bytes = "nat list"

datatype mso_fill_type =
    FILL_BACKGROUND | FILL_GRADIENT | FILL_GROUP | FILL_PATTERNED | FILL_PICTURE
  | FILL_SOLID | FILL_TEXTURED

text \<open>
  A fill: \<open>fill_type\<close> is \<^verbatim>\<open>fill.type\<close> (\<^verbatim>\<open>None\<close> for no fill); \<open>fore_rgb\<close> is
  \<^verbatim>\<open>fill.fore_color.rgb\<close>, where \<open>NoAttr\<close> stands for a colour without an RGB value (the
  access raises \<^verbatim>\<open>AttributeError\<close>, so \<^verbatim>\<open>hasattr\<close> is false); \<open>fill_picture\<close> is the
  blob \<^verbatim>\<open>fill.picture.image.blob\<close> when lines 172-177 decode it, \<open>None\<close> when any of
  them raises.
\<close>

record fill_format =
  fill_type :: "mso_fill_type option"
  fore_rgb :: "(nat \<times> nat \<times> nat) attr"
  fill_picture :: "bytes option"

record background =
  bg_fill :: "fill_format attr"

record slide_master =
  master_background :: "background attr"

record slide_layout =
  layout_background :: "background attr"
  layout_slide_master :: "slide_master attr"

datatype mso_shape_type =
    AUTO_SHAPE | CHART | FREEFORM | GROUP | LINE | MEDIA | PICTURE | PLACEHOLDER
  | TABLE | TEXT_BOX

text \<open>
  A run: its text, \<^verbatim>\<open>run.font.size\<close> in EMU (\<open>None\<close> when unset), whether
  \<^verbatim>\<open>run.font.color.type\<close> compares equal to \<^verbatim>\<open>NOT_THEME_COLOR\<close>, and
  \<^verbatim>\<open>run.font.color.rgb\<close>.
\<close>

record run =
  run_text :: string
  font_size :: "int option"
  color_not_theme :: bool
  color_rgb :: "(nat \<times> nat \<times> nat) attr"

type_synonym runs = "run list"

text \<open>
  What \<^verbatim>\<open>Image.open(BytesIO(shape.image.blob))\<close> finds: bytes that do not decode, a
  static picture, or an animated GIF with the \<^verbatim>\<open>duration\<close> entry (milliseconds) of each
  frame, \<open>None\<close> when the frame has none.
\<close>

datatype picture =
    Undecodable bytes
  | StaticImage bytes
  | AnimatedGif bytes "nat option list"

text \<open>A table: the cell texts of each row, and \<^verbatim>\<open>len(table.columns)\<close>.\<close>

record table =
  table_rows :: "string list list"
  table_columns :: nat

text \<open>
  A shape. \<open>shape_type\<close> is a computed property: python-pptx raises
  \<^verbatim>\<open>NotImplementedError\<close> for a shape element it does not recognise.
\<close>

record shape =
  shape_type :: "mso_shape_type computed"
  shape_fill :: "fill_format attr"
  shape_left :: "int attr"
  shape_top :: "int attr"
  shape_width :: "int attr"
  shape_height :: "int attr"
  text_frame :: "runs list attr"
  shape_image :: "picture attr"
  shape_table :: "table attr"

record slide =
  slide_background :: "background attr"
  slide_slide_layout :: "slide_layout attr"
  shapes :: "shape list"

subsection \<open>Pictures and clips\<close>

text \<open>
  A picture is the record of how it was made: \<^verbatim>\<open>Image.new(mode, size, color)\<close> followed
  by the \<^verbatim>\<open>ImageDraw\<close> and \<^verbatim>\<open>paste\<close> calls in order, or a decoded picture (frame \<open>k\<close> of
  the blob) resized to a size.
\<close>

datatype draw_op =
    Rectangle int int int int color "color option"
  | DrawText int int string int color
  | Paste bytes int int int int

datatype image =
    NewImage "int \<times> int" color "draw_op list"
  | Resized bytes nat "int \<times> int"

datatype motion = FromLeft | FromRight

text \<open>
  The moviepy clips the module builds. \<open>FadeInOut c d\<close> is \<^verbatim>\<open>c.fadein(d).fadeout(d)\<close>,
  \<open>SetPosition c m w d\<close> is \<^verbatim>\<open>c.set_position(lambda t: ...)\<close> of lines 99-100 and
  107-108, \<open>Resize c d\<close> is \<^verbatim>\<open>c.resize(lambda t: 1 + 0.1 * t / d)\<close>.
\<close>

datatype clip =
    ImageClip image rat
  | ImageSequenceClip "image list" "rat list" "int \<times> int" rat
  | ColorClip "int \<times> int" color rat
  | CompositeVideoClip "clip list" "(int \<times> int) option"
  | FadeInOut clip rat
  | SetPosition clip motion int rat
  | Resize clip rat
  | Concatenate "clip list"

fun list_max :: "rat list \<Rightarrow> rat" where
  "list_max [] = 0"
| "list_max (x # xs) = fold max xs x"

text \<open>
  \<^verbatim>\<open>clip.duration\<close>: a composite lasts until its last layer ends, a concatenation for
  the sum of its parts, an effect as long as the clip it wraps.
\<close>

fun clip_duration :: "clip \<Rightarrow> rat" where
  "clip_duration (ImageClip i d) = d"
| "clip_duration (ImageSequenceClip fs ds p d) = d"
| "clip_duration (ColorClip s c d) = d"
| "clip_duration (CompositeVideoClip cs s) = list_max (map clip_duration cs)"
| "clip_duration (FadeInOut c d) = clip_duration c"
| "clip_duration (SetPosition c m w d) = clip_duration c"
| "clip_duration (Resize c d) = clip_duration c"
| "clip_duration (Concatenate cs) = sum_list (map clip_duration cs)"

definition image_size :: "image \<Rightarrow> int \<times> int" where
  "image_size i = (case i of NewImage s c ops \<Rightarrow> s | Resized b k s \<Rightarrow> s)"

text \<open>\<^verbatim>\<open>clip.size\<close>, for the clips \<^verbatim>\<open>create_slide_clip\<close> returns.\<close>

fun clip_size :: "clip \<Rightarrow> int \<times> int" where
  "clip_size (ImageClip i d) = image_size i"
| "clip_size (ImageSequenceClip fs ds p d) = (case fs of [] \<Rightarrow> (0, 0) | f # _ \<Rightarrow> image_size f)"
| "clip_size (ColorClip s c d) = s"
| "clip_size (CompositeVideoClip cs s) =
     (case s of Some z \<Rightarrow> z | None \<Rightarrow> (case cs of [] \<Rightarrow> (0, 0) | c # _ \<Rightarrow> clip_size c))"
| "clip_size (FadeInOut c d) = clip_size c"
| "clip_size (SetPosition c m w d) = clip_size c"
| "clip_size (Resize c d) = clip_size c"
| "clip_size (Concatenate cs) = (case cs of [] \<Rightarrow> (0, 0) | c # _ \<Rightarrow> clip_size c)"

subsection \<open>Helpers of the renderer\<close>

definition sum_bind :: "'e + 'a \<Rightarrow> ('a \<Rightarrow> 'e + 'b) \<Rightarrow> 'e + 'b" where
  "sum_bind m f = (case m of Inl e \<Rightarrow> Inl e | Inr v \<Rightarrow> f v)"

text \<open>
  \<^verbatim>\<open>str.strip()\<close>: leading and trailing whitespace removed. A \<open>char\<close> stands for a
  code point below 256, and \<open>is_space\<close> holds of those for which Python's
  \<^verbatim>\<open>str.isspace\<close> does: the tab to the carriage return, the four separators
  U+001C to U+001F, the space, U+0085 and the no-break space U+00A0.
\<close>

definition is_space :: "char \<Rightarrow> bool" where
  "is_space c =
     (c \<in> set [CHR 0x09, CHR 0x0A, CHR 0x0B, CHR 0x0C, CHR 0x0D,
                CHR 0x1C, CHR 0x1D, CHR 0x1E, CHR 0x1F, CHR 0x20, CHR 0x85, CHR 0xA0])"

definition strip :: "string \<Rightarrow> string" where
  "strip t = rev (dropWhile is_space (rev (dropWhile is_space t)))"

text \<open>Lines 23-35. The only exception handled is \<^verbatim>\<open>AttributeError\<close>, answered with black.\<close>

definition get_font_color :: "run \<Rightarrow> color" where
  "get_font_color r =
     (if color_not_theme r
      then (case color_rgb r of
              Val (cr, cg, cb) \<Rightarrow> RGBA cr cg cb 255
            | IsNone \<Rightarrow> RGBA 0 0 0 255
            | NoAttr \<Rightarrow> RGBA 0 0 0 255)
      else RGBA 0 0 0 255)"

text \<open>\<^verbatim>\<open>int(run.font.size.pt if run.font.size else 24)\<close>, a length being 12700 EMU a point.\<close>

definition font_pixels :: "run \<Rightarrow> int" where
  "font_pixels r =
     (case font_size r of
        None \<Rightarrow> 24
      | Some e \<Rightarrow> if e = 0 then 24 else float_to_int (float_round (of_int e / 12700)))"

text \<open>The four conversions of lines 220-223 (and 302-306, 342-346), in source order.\<close>

definition box_pixels ::
  "int option \<Rightarrow> int option \<Rightarrow> int option \<Rightarrow> int option \<Rightarrow> int \<Rightarrow> int \<Rightarrow> int \<Rightarrow> int
     \<Rightarrow> exc + (int \<times> int \<times> int \<times> int)" where
  "box_pixels left top' shape_w shape_h slide_width_emus slide_height_emus width height =
     sum_bind (to_pixels left slide_width_emus width) (\<lambda>x.
     sum_bind (to_pixels top' slide_height_emus height) (\<lambda>y.
     sum_bind (to_pixels shape_w slide_width_emus width) (\<lambda>w.
     sum_bind (to_pixels shape_h slide_height_emus height) (\<lambda>h.
     Inr (x, y, w, h)))))"

text \<open>\<^verbatim>\<open>range(0, stop, step)\<close> for a positive step.\<close>

definition range_step :: "int \<Rightarrow> int \<Rightarrow> int list" where
  "range_step stop step = map (\<lambda>k. int k * step) [0..<nat ((stop + step - 1) div step)]"

subsection \<open>\<^verbatim>\<open>create_pattern_background\<close> (lines 427-448)\<close>

definition create_pattern_background :: "color \<Rightarrow> color \<Rightarrow> int \<Rightarrow> int \<Rightarrow> image" where
  "create_pattern_background fore_color back_color width height =
     (let pattern_size = 20
      in NewImage (width, height) back_color
           (concat (map (\<lambda>x. concat (map (\<lambda>y.
              [Rectangle x y (x + pattern_size) (y + pattern_size) fore_color None,
               Rectangle (x + pattern_size) (y + pattern_size)
                 (x + pattern_size * 2) (y + pattern_size * 2) fore_color None])
              (range_step height (pattern_size * 2))))
              (range_step width (pattern_size * 2)))))"

subsection \<open>\<^verbatim>\<open>create_slide_clip\<close>: the background (lines 124-193)\<close>

definition fill_of_background :: "background attr \<Rightarrow> fill_format option" where
  "fill_of_background b =
     (case b of
        Val bg \<Rightarrow> (case bg_fill bg of Val f \<Rightarrow> Some f | IsNone \<Rightarrow> None | NoAttr \<Rightarrow> None)
      | IsNone \<Rightarrow> None
      | NoAttr \<Rightarrow> None)"

text \<open>
  Lines 125-147: the slide's own background, then the layout's, then the master's. The
  third test reads \<^verbatim>\<open>slide.slide_layout\<close> without a \<^verbatim>\<open>hasattr\<close> guard, so a slide
  without that attribute raises \<^verbatim>\<open>AttributeError\<close> there.
\<close>

definition resolve_background_fill :: "slide \<Rightarrow> exc + fill_format option" where
  "resolve_background_fill s =
     (case fill_of_background (slide_background s) of
        Some f \<Rightarrow> Inr (Some f)
      | None \<Rightarrow>
          (case (case slide_slide_layout s of
                   Val l \<Rightarrow> fill_of_background (layout_background l)
                 | IsNone \<Rightarrow> None
                 | NoAttr \<Rightarrow> None) of
             Some f \<Rightarrow> Inr (Some f)
           | None \<Rightarrow>
               (case slide_slide_layout s of
                  NoAttr \<Rightarrow> Inl AttributeError
                | IsNone \<Rightarrow> Inr None
                | Val l \<Rightarrow>
                    (case layout_slide_master l of
                       Val m \<Rightarrow> Inr (fill_of_background (master_background m))
                     | IsNone \<Rightarrow> Inr None
                     | NoAttr \<Rightarrow> Inr None))))"

text \<open>
  Lines 124 and 149-189. \<^verbatim>\<open>create_gradient_background\<close> is called at line 166 but is
  defined nowhere in the repository and is not a name of \<^verbatim>\<open>moviepy.editor\<close>: the call
  raises \<^verbatim>\<open>NameError\<close>. \<^verbatim>\<open>create_pattern_background\<close> is never called: a patterned
  fill takes the last branch.
\<close>

definition background_image :: "fill_format option \<Rightarrow> int \<Rightarrow> int \<Rightarrow> exc + image" where
  "background_image background_fill width height =
     (case background_fill of
        None \<Rightarrow> Inr (NewImage (width, height) (RGB 255 255 255) [])
      | Some f \<Rightarrow>
          (case fill_type f of
             Some FILL_SOLID \<Rightarrow>
               (case fore_rgb f of
                  NoAttr \<Rightarrow> Inr (NewImage (width, height) (RGB 255 255 255) [])
                | IsNone \<Rightarrow> Inl TypeError
                | Val (cr, cg, cb) \<Rightarrow> Inr (NewImage (width, height) (RGB cr cg cb) []))
           | Some FILL_GRADIENT \<Rightarrow> Inl NameError
           | Some FILL_PICTURE \<Rightarrow>
               (case fill_picture f of
                  Some blob \<Rightarrow> Inr (Resized blob 0 (width, height))
                | None \<Rightarrow> Inr (NewImage (width, height) (RGB 255 255 255) []))
           | _ \<Rightarrow> Inr (NewImage (width, height) (RGB 255 255 255) [])))"

definition slide_background_image :: "slide \<Rightarrow> int \<Rightarrow> int \<Rightarrow> exc + image" where
  "slide_background_image s width height =
     sum_bind (resolve_background_fill s) (\<lambda>background_fill.
       background_image background_fill width height)"

subsection \<open>\<^verbatim>\<open>create_slide_clip\<close>: one shape (the body of the inner \<^verbatim>\<open>try\<close>, lines 203-409)\<close>

text \<open>The transparent full-frame canvas of lines 207, 240, 353 and 366, with its drawings.\<close>

definition layer :: "int \<Rightarrow> int \<Rightarrow> draw_op list \<Rightarrow> rat \<Rightarrow> clip" where
  "layer width height ops duration =
     ImageClip (NewImage (width, height) (RGBA 0 0 0 0) ops) duration"

text \<open>
  Lines 203-234: the solid fill. A missing width or height defaults to the frame's
  pixel width or height. The clips returned are those appended to \<^verbatim>\<open>clips\<close>.
\<close>

definition fill_clips ::
  "int \<Rightarrow> int \<Rightarrow> rat \<Rightarrow> int \<Rightarrow> int \<Rightarrow> shape \<Rightarrow> exc + clip list" where
  "fill_clips width height duration slide_width_emus slide_height_emus s =
     (case shape_fill s of
        NoAttr \<Rightarrow> Inr []
      | IsNone \<Rightarrow> Inl AttributeError
      | Val fill \<Rightarrow>
          if fill_type fill = Some FILL_SOLID
          then sum_bind
                 (box_pixels (attr_or (shape_left s) 0) (attr_or (shape_top s) 0)
                    (attr_or (shape_width s) width) (attr_or (shape_height s) height)
                    slide_width_emus slide_height_emus width height)
                 (\<lambda>(x, y, w, h).
                    case fore_rgb fill of
                      NoAttr \<Rightarrow> Inl AttributeError
                    | IsNone \<Rightarrow> Inl TypeError
                    | Val (cr, cg, cb) \<Rightarrow>
                        Inr [layer width height
                               [Rectangle x y (x + w) (y + h) (RGBA cr cg cb 255) None]
                               duration])
          else Inr [])"

text \<open>
  Lines 243-275: every run with text left after \<^verbatim>\<open>strip\<close> is drawn at the shape's own
  top-left corner. The drawing calls made so far are threaded through both loops.
\<close>

fun draw_runs ::
  "int \<Rightarrow> int \<Rightarrow> int \<Rightarrow> int \<Rightarrow> shape \<Rightarrow> run list \<Rightarrow> draw_op list \<Rightarrow> exc + draw_op list" where
  "draw_runs width height slide_width_emus slide_height_emus s [] ops = Inr ops"
| "draw_runs width height slide_width_emus slide_height_emus s (r # rs) ops =
     (let text = strip (run_text r)
      in if text = [] then draw_runs width height slide_width_emus slide_height_emus s rs ops
         else sum_bind (to_pixels (attr_or (shape_left s) 0) slide_width_emus width) (\<lambda>x.
              sum_bind (to_pixels (attr_or (shape_top s) 0) slide_height_emus height) (\<lambda>y.
              draw_runs width height slide_width_emus slide_height_emus s rs
                (ops @ [DrawText x y text (font_pixels r) (get_font_color r)]))))"

fun draw_paragraphs ::
  "int \<Rightarrow> int \<Rightarrow> int \<Rightarrow> int \<Rightarrow> shape \<Rightarrow> runs list \<Rightarrow> draw_op list \<Rightarrow> exc + draw_op list" where
  "draw_paragraphs width height slide_width_emus slide_height_emus s [] ops = Inr ops"
| "draw_paragraphs width height slide_width_emus slide_height_emus s (p # ps) ops =
     sum_bind (draw_runs width height slide_width_emus slide_height_emus s p ops)
       (draw_paragraphs width height slide_width_emus slide_height_emus s ps)"

text \<open>
  Lines 291-326 and 327-361: the geometry of a picture. A missing width or height
  defaults to half the slide, in EMU.
\<close>

definition picture_box :: "int \<Rightarrow> int \<Rightarrow> int \<Rightarrow> int \<Rightarrow> shape \<Rightarrow> exc + (int \<times> int \<times> int \<times> int)" where
  "picture_box width height slide_width_emus slide_height_emus s =
     box_pixels (attr_or (shape_left s) 0) (attr_or (shape_top s) 0)
       (attr_or (shape_width s) (slide_width_emus div 2))
       (attr_or (shape_height s) (slide_height_emus div 2))
       slide_width_emus slide_height_emus width height"

text \<open>
  \<^verbatim>\<open>Image.resize((w, h))\<close> of lines 313 and 349 raises \<^verbatim>\<open>ValueError\<close> unless both
  numbers are at least 1.
\<close>

definition resize_raises :: "int \<Rightarrow> int \<Rightarrow> bool" where
  "resize_raises w h = (w < 1 \<or> h < 1)"

text \<open>
  The picture branch. The frames of an animated picture are resized one after the
  other, so the first of them raises when the size is refused; a sequence without
  frames is refused by \<^verbatim>\<open>ImageSequenceClip\<close>, which reads its first element.
\<close>

definition picture_clips ::
  "int \<Rightarrow> int \<Rightarrow> rat \<Rightarrow> int \<Rightarrow> int \<Rightarrow> shape \<Rightarrow> exc + clip list" where
  "picture_clips width height duration slide_width_emus slide_height_emus s =
     (case shape_image s of
        NoAttr \<Rightarrow> Inr []
      | IsNone \<Rightarrow> Inl AttributeError
      | Val pil_image \<Rightarrow>
          (case pil_image of
             Undecodable blob \<Rightarrow> Inl UnidentifiedImageError
           | AnimatedGif blob infos \<Rightarrow>
               sum_bind (picture_box width height slide_width_emus slide_height_emus s)
                 (\<lambda>(x, y, w, h).
                    if infos = [] then Inl IndexError
                    else if resize_raises w h then Inl ImageValueError
                    else
                      Inr [ImageSequenceClip
                             (map (\<lambda>k. Resized blob k (w, h)) [0..<length infos])
                             (map (\<lambda>d. float_round
                                          (of_nat (case d of None \<Rightarrow> 100 | Some v \<Rightarrow> v) / 1000))
                                infos)
                             (x, y) duration])
           | StaticImage blob \<Rightarrow>
               sum_bind (picture_box width height slide_width_emus slide_height_emus s)
                 (\<lambda>(x, y, w, h).
                    if resize_raises w h then Inl ImageValueError
                    else Inr [layer width height [Paste blob x y w h] duration])))"

text \<open>
  Lines 381-404: the cells of a table are laid out on the whole frame, \<^verbatim>\<open>height // num_rows\<close>
  by \<^verbatim>\<open>width // num_cols\<close> each; the shape's own position and size are not read.
\<close>

definition draw_cell :: "int \<Rightarrow> int \<Rightarrow> nat \<Rightarrow> nat \<times> string \<Rightarrow> draw_op list" where
  "draw_cell cell_width cell_height row_idx c =
     (let x = int (fst c) * cell_width; y = int row_idx * cell_height; text = strip (snd c)
      in Rectangle x y (x + cell_width) (y + cell_height) (RGBA 255 255 255 255)
           (Some (RGBA 0 0 0 255))
         # (if text \<noteq> [] then [DrawText (x + 5) (y + 5) text 24 (RGBA 0 0 0 255)] else []))"

definition draw_table :: "int \<Rightarrow> int \<Rightarrow> string list list \<Rightarrow> draw_op list" where
  "draw_table cell_width cell_height rows =
     concat (map (\<lambda>(row_idx, row).
               concat (map (draw_cell cell_width cell_height row_idx) (List.enumerate 0 row)))
            (List.enumerate 0 rows))"

definition table_clips :: "int \<Rightarrow> int \<Rightarrow> rat \<Rightarrow> shape \<Rightarrow> exc + clip list" where
  "table_clips width height duration s =
     (case shape_table s of
        NoAttr \<Rightarrow> Inr []
      | IsNone \<Rightarrow> Inl AttributeError
      | Val t \<Rightarrow>
          (let num_rows = int (length (table_rows t)); num_cols = int (table_columns t)
           in if num_rows = 0 \<or> num_cols = 0 then Inl ZeroDivisionError
              else Inr [layer width height
                          (draw_table (width div num_cols) (height div num_rows) (table_rows t))
                          duration]))"

text \<open>
  Lines 237-409: the \<^verbatim>\<open>if\<close>/\<^verbatim>\<open>elif\<close>/\<^verbatim>\<open>elif\<close> chain. A shape with a text frame is
  drawn as text and nothing else; the picture and the table are looked at only when
  there is no text frame.
\<close>

definition content_clips ::
  "int \<Rightarrow> int \<Rightarrow> rat \<Rightarrow> int \<Rightarrow> int \<Rightarrow> shape \<Rightarrow> exc + clip list" where
  "content_clips width height duration slide_width_emus slide_height_emus s =
     (case text_frame s of
        Val paragraphs \<Rightarrow>
          sum_bind (draw_paragraphs width height slide_width_emus slide_height_emus s paragraphs [])
            (\<lambda>ops. Inr [layer width height ops duration])
      | _ \<Rightarrow>
          (case shape_type s of
             Raises e \<Rightarrow> Inl e
           | Returns PICTURE \<Rightarrow>
               picture_clips width height duration slide_width_emus slide_height_emus s
           | Returns TABLE \<Rightarrow> table_clips width height duration s
           | Returns _ \<Rightarrow> Inr []))"

text \<open>
  One pass of the inner \<^verbatim>\<open>try\<close>: the exception it ended with, if any, and the clips it
  appended to \<^verbatim>\<open>clips\<close> before that. A fill layer appended at line 234 stays in the
  list when the text, picture or table code raises afterwards.
\<close>

definition render_shape ::
  "int \<Rightarrow> int \<Rightarrow> rat \<Rightarrow> int \<Rightarrow> int \<Rightarrow> shape \<Rightarrow> exc option \<times> clip list" where
  "render_shape width height duration slide_width_emus slide_height_emus s =
     (case fill_clips width height duration slide_width_emus slide_height_emus s of
        Inl e \<Rightarrow> (Some e, [])
      | Inr filled \<Rightarrow>
          (case content_clips width height duration slide_width_emus slide_height_emus s of
             Inl e \<Rightarrow> (Some e, filled)
           | Inr content \<Rightarrow> (None, filled @ content)))"

subsection \<open>\<^verbatim>\<open>create_slide_clip\<close>: the loop and the outer handler (lines 196-424)\<close>

text \<open>
  The loop over \<^verbatim>\<open>slide.shapes\<close>. The debug message of lines 199-201 reads
  \<^verbatim>\<open>shape.shape_type\<close> before the inner \<^verbatim>\<open>try\<close> is entered: an exception there leaves
  the loop. An exception inside the \<^verbatim>\<open>try\<close> is logged and the loop goes on.
\<close>

fun shapes_loop ::
  "int \<Rightarrow> int \<Rightarrow> rat \<Rightarrow> int \<Rightarrow> int \<Rightarrow> shape list \<Rightarrow> clip list \<Rightarrow> exc + clip list" where
  "shapes_loop width height duration slide_width_emus slide_height_emus [] clips = Inr clips"
| "shapes_loop width height duration slide_width_emus slide_height_emus (s # ss) clips =
     (case shape_type s of
        Raises e \<Rightarrow> Inl e
      | Returns t \<Rightarrow>
          shapes_loop width height duration slide_width_emus slide_height_emus ss
            (clips @ snd (render_shape width height duration slide_width_emus slide_height_emus s)))"

text \<open>
  The whole function. The handler of lines 422-424 returns \<^verbatim>\<open>background_clip\<close>, a local
  that is bound at line 193 only: after an exception in lines 124-192 the \<^verbatim>\<open>return\<close>
  itself raises \<^verbatim>\<open>UnboundLocalError\<close>, which leaves the function.
\<close>

definition create_slide_clip ::
  "slide \<Rightarrow> int \<Rightarrow> int \<Rightarrow> rat \<Rightarrow> int \<Rightarrow> int \<Rightarrow> exc + clip" where
  "create_slide_clip s width height duration slide_width_emus slide_height_emus =
     (case slide_background_image s width height of
        Inl e \<Rightarrow> Inl UnboundLocalError
      | Inr frame \<Rightarrow>
          (let background_clip = ImageClip frame duration
           in case shapes_loop width height duration slide_width_emus slide_height_emus
                     (shapes s) [background_clip] of
                Inl e \<Rightarrow> Inr background_clip
              | Inr clips \<Rightarrow>
                  if length clips > 1
                  then Inr (CompositeVideoClip clips (Some (width, height)))
                  else (case clips of c # _ \<Rightarrow> Inr c | [] \<Rightarrow> Inr background_clip)))"

subsection \<open>\<^verbatim>\<open>apply_transition_effect\<close> (lines 88-117)\<close>

text \<open>
  \<open>raises\<close> tells whether moviepy raises while the effect is built; the handler then
  returns the clip it was given.
\<close>

definition apply_transition_effect ::
  "(string \<Rightarrow> clip \<Rightarrow> bool) \<Rightarrow> clip \<Rightarrow> string \<Rightarrow> rat \<Rightarrow> clip" where
  "apply_transition_effect raises c transition_type duration =
     (if raises transition_type c then c
      else if transition_type = ''fade'' then FadeInOut c duration
      else if transition_type = ''slide_left''
        then CompositeVideoClip
               [ColorClip (clip_size c) (RGB 0 0 0) (clip_duration c),
                SetPosition c FromLeft (fst (clip_size c)) duration] None
      else if transition_type = ''slide_right''
        then CompositeVideoClip
               [ColorClip (clip_size c) (RGB 0 0 0) (clip_duration c),
                SetPosition c FromRight (fst (clip_size c)) duration] None
      else if transition_type = ''zoom'' then Resize c duration
      else c)"

subsection \<open>\<^verbatim>\<open>convert_pptx_to_video\<close> (lines 451-538)\<close>

definition transitions :: "string list" where
  "transitions = [''fade'', ''slide_left'', ''slide_right'', ''zoom'']"

text \<open>
  Lines 471-503, the body of the loop for the slide with 1-based index \<open>i\<close>.
  \<^verbatim>\<open>create_slide_clip\<close> never returns \<^verbatim>\<open>None\<close>, so the test of line 484 holds whenever it
  returns. When it raises, the handler appends a white frame that lasts
  \<^verbatim>\<open>transition_duration\<close> and is given no transition.
\<close>

definition process_slide ::
  "(string \<Rightarrow> clip \<Rightarrow> bool) \<Rightarrow> int \<Rightarrow> int \<Rightarrow> nat \<Rightarrow> slide \<Rightarrow> clip" where
  "process_slide raises slide_width_emus slide_height_emus i s =
     (let width = 1920; height = 1080;
          duration = 2; transition_duration = 1 / 2;
          total_duration = duration + transition_duration
      in case create_slide_clip s width height total_duration slide_width_emus slide_height_emus of
           Inr c \<Rightarrow>
             apply_transition_effect raises c (transitions ! (i mod length transitions))
               transition_duration
         | Inl e \<Rightarrow>
             ImageClip (NewImage (width, height) (RGB 255 255 255) []) transition_duration)"

text \<open>\<^verbatim>\<open>for i, slide in enumerate(prs.slides, 1)\<close>, appending to \<^verbatim>\<open>clips\<close>.\<close>

fun slides_loop ::
  "(string \<Rightarrow> clip \<Rightarrow> bool) \<Rightarrow> int \<Rightarrow> int \<Rightarrow> nat \<Rightarrow> slide list \<Rightarrow> clip list \<Rightarrow> clip list" where
  "slides_loop raises slide_width_emus slide_height_emus i [] clips = clips"
| "slides_loop raises slide_width_emus slide_height_emus i (s # ss) clips =
     slides_loop raises slide_width_emus slide_height_emus (i + 1) ss
       (clips @ [process_slide raises slide_width_emus slide_height_emus i s])"

text \<open>Exceptions that reach the two conversion functions, with their message.\<close>

datatype error =
    RuntimeError string
  | ValueError string
  | FileNotFoundError string
  | OtherException string

definition str_of :: "error \<Rightarrow> string" where
  "str_of e = (case e of RuntimeError m \<Rightarrow> m | ValueError m \<Rightarrow> m
                | FileNotFoundError m \<Rightarrow> m | OtherException m \<Rightarrow> m)"

record presentation =
  slide_width :: int
  slide_height :: int
  slides :: "slide list"

type_synonym path = string

text \<open>The files that exist, with their size in bytes.\<close>

type_synonym files = "path \<Rightarrow> nat option"

text \<open>
  What the module asks of the world around it: what running \<^verbatim>\<open>convert -version\<close>
  gives (the words it printed, \<open>None\<close> for the \<^verbatim>\<open>CalledProcessError\<close> or
  \<^verbatim>\<open>FileNotFoundError\<close> that \<^verbatim>\<open>check_imagemagick\<close> handles, or any other exception of
  \<^verbatim>\<open>subprocess.run\<close>), \<^verbatim>\<open>mimetypes.guess_type\<close>,
  whether \<^verbatim>\<open>os.makedirs\<close> raises, what \<^verbatim>\<open>Presentation(path)\<close> returns, whether moviepy
  raises on a transition, what concatenating and \<^verbatim>\<open>write_videofile\<close> do to the files and
  whether they raise, and whether \<^verbatim>\<open>os.remove\<close> raises.
\<close>

record environment =
  convert_version :: "error + string list option"
  guess_type :: "path \<Rightarrow> string option"
  makedirs :: "error option"
  load_presentation :: "path \<Rightarrow> error + presentation"
  effect_raises :: "string \<Rightarrow> clip \<Rightarrow> bool"
  write_videofile :: "clip \<Rightarrow> path \<Rightarrow> nat \<Rightarrow> files \<Rightarrow> error option \<times> files"
  remove_raises :: "path \<Rightarrow> bool"

text \<open>The handler of lines 536-538 wraps every exception in a \<^verbatim>\<open>RuntimeError\<close>.\<close>

definition conversion_failed :: "error \<Rightarrow> error" where
  "conversion_failed e = RuntimeError (''Failed to convert PPTX to video: '' @ str_of e)"

definition convert_pptx_to_video ::
  "environment \<Rightarrow> path \<Rightarrow> path \<Rightarrow> files \<Rightarrow> (error + unit) \<times> files" where
  "convert_pptx_to_video env pptx_path output_path fs =
     (case load_presentation env pptx_path of
        Inl e \<Rightarrow> (Inl (conversion_failed e), fs)
      | Inr prs \<Rightarrow>
          (let fps = 24;
               clips = slides_loop (effect_raises env) (slide_width prs) (slide_height prs) 1
                         (slides prs) []
           in if clips = []
              then (Inl (conversion_failed (ValueError ''No valid slides were processed'')), fs)
              else (case write_videofile env (Concatenate clips) output_path fps fs of
                      (Some e, fs') \<Rightarrow> (Inl (conversion_failed e), fs')
                    | (None, fs') \<Rightarrow> (Inr (), fs'))))"

subsection \<open>\<^verbatim>\<open>convert_to_video\<close> and its checks (lines 54-85, 541-584)\<close>

definition lower :: "string \<Rightarrow> string" where
  "lower t = map (\<lambda>c. let n = (of_char c :: nat)
                       in if 65 \<le> n \<and> n \<le> 90 then char_of (n + 32) else c) t"

fun starts_with :: "string \<Rightarrow> string \<Rightarrow> bool" where
  "starts_with [] t = True"
| "starts_with (c # cs) [] = False"
| "starts_with (c # cs) (d # ds) = (c = d \<and> starts_with cs ds)"

text \<open>\<^verbatim>\<open>sub in t\<close> on strings.\<close>

fun contains :: "string \<Rightarrow> string \<Rightarrow> bool" where
  "contains sub [] = (sub = [])"
| "contains sub (d # ds) = (starts_with sub (d # ds) \<or> contains sub ds)"

definition verify_file_type :: "environment \<Rightarrow> files \<Rightarrow> path \<Rightarrow> string \<Rightarrow> bool" where
  "verify_file_type env fs file_path expected_type =
     (if fs file_path = None then False
      else case guess_type env file_path of
             None \<Rightarrow> False
           | Some mime_type \<Rightarrow>
               if mime_type = [] then False else contains expected_type (lower mime_type))"

text \<open>
  \<^verbatim>\<open>check_imagemagick\<close>: the third word of the output is logged, and only the two
  exceptions of \<^verbatim>\<open>subprocess.run\<close> are handled; any other leaves the function.
\<close>

definition check_imagemagick :: "environment \<Rightarrow> error + bool" where
  "check_imagemagick env =
     (case convert_version env of
        Inl e \<Rightarrow> Inl e
      | Inr None \<Rightarrow> Inr False
      | Inr (Some out) \<Rightarrow>
          if 2 < length out then Inr True else Inl (OtherException ''list index out of range''))"

fun str_nat :: "nat \<Rightarrow> string" where
  "str_nat n =
     (if n < 10 then [char_of (48 + n)] else str_nat (n div 10) @ [char_of (48 + n mod 10)])"

declare str_nat.simps [simp del]

text \<open>
  The body of the \<^verbatim>\<open>try\<close> of lines 545-575. Paths are taken as absolute, so that
  \<^verbatim>\<open>os.path.abspath\<close> leaves them as they are.
\<close>

definition convert_and_verify ::
  "environment \<Rightarrow> path \<Rightarrow> path \<Rightarrow> files \<Rightarrow> (error + bool) \<times> files" where
  "convert_and_verify env pptx_path output_path fs =
     (case check_imagemagick env of
        Inl e \<Rightarrow> (Inl e, fs)
      | Inr False \<Rightarrow> (Inl (RuntimeError ''ImageMagick is not properly configured''), fs)
      | Inr True \<Rightarrow>
          if \<not> verify_file_type env fs pptx_path ''officedocument''
          then (Inl (ValueError ''Invalid PPTX file format''), fs)
          else (case makedirs env of
                  Some e \<Rightarrow> (Inl e, fs)
                | None \<Rightarrow>
                    (case convert_pptx_to_video env pptx_path output_path fs of
                       (Inl e, fs') \<Rightarrow> (Inl e, fs')
                     | (Inr u, fs') \<Rightarrow>
                         (case fs' output_path of
                            None \<Rightarrow>
                              (Inl (FileNotFoundError
                                      (''Video was not created at '' @ output_path)), fs')
                          | Some video_size \<Rightarrow>
                              if video_size < 1000
                              then (Inl (ValueError
                                           (''Generated video is too small (''
                                              @ str_nat video_size @ '' bytes)'')), fs')
                              else (Inr True, fs')))))"

text \<open>
  Lines 577-584: on any exception the output file is removed when it exists, a failure
  of the removal is passed over in silence, and the exception is raised again.
\<close>

definition remove_output :: "environment \<Rightarrow> path \<Rightarrow> files \<Rightarrow> files" where
  "remove_output env output_path fs =
     (if fs output_path \<noteq> None
      then (if remove_raises env output_path then fs else fs(output_path := None))
      else fs)"

definition convert_to_video ::
  "environment \<Rightarrow> path \<Rightarrow> path \<Rightarrow> files \<Rightarrow> (error + bool) \<times> files" where
  "convert_to_video env pptx_path output_path fs =
     (case convert_and_verify env pptx_path output_path fs of
        (Inr b, fs') \<Rightarrow> (Inr b, fs')
      | (Inl e, fs') \<Rightarrow> (Inl e, remove_output env output_path fs'))"

subsection \<open>Sample decks and environments\<close>

text \<open>
  A 10 in by 7.5 in deck (9144000 by 6858000 EMU), a one-inch square shape one inch from
  the top-left corner, and slides built from a background fill and a list of shapes.
\<close>

definition solid_fill :: "nat \<times> nat \<times> nat \<Rightarrow> fill_format" where
  "solid_fill c = \<lparr>fill_type = Some FILL_SOLID, fore_rgb = Val c, fill_picture = None\<rparr>"

definition typed_fill :: "mso_fill_type \<Rightarrow> fill_format" where
  "typed_fill t = \<lparr>fill_type = Some t, fore_rgb = NoAttr, fill_picture = None\<rparr>"

definition square_shape :: shape where
  "square_shape =
     \<lparr>shape_type = Returns AUTO_SHAPE, shape_fill = NoAttr,
      shape_left = Val 914400, shape_top = Val 914400,
      shape_width = Val 914400, shape_height = Val 914400,
      text_frame = NoAttr, shape_image = NoAttr, shape_table = NoAttr\<rparr>"

definition red_square :: shape where
  "red_square = square_shape\<lparr>shape_fill := Val (solid_fill (255, 0, 0))\<rparr>"

definition hello_run :: run where
  "hello_run =
     \<lparr>run_text = ''Hello '', font_size = Some 228600, color_not_theme = False,
      color_rgb = NoAttr\<rparr>"

text \<open>A shape with a solid fill, a text frame and a picture, typed as a picture.\<close>

definition captioned_picture :: shape where
  "captioned_picture =
     red_square\<lparr>shape_type := Returns PICTURE, text_frame := Val [[hello_run]],
       shape_image := Val (StaticImage [137, 80, 78, 71])\<rparr>"

definition table_shape :: shape where
  "table_shape =
     square_shape\<lparr>shape_type := Returns TABLE,
       shape_table := Val \<lparr>table_rows = [[''a'']], table_columns = 1\<rparr>\<rparr>"

text \<open>A shape element python-pptx does not recognise.\<close>

definition unrecognised_shape :: shape where
  "unrecognised_shape = square_shape\<lparr>shape_type := Raises NotImplementedError\<rparr>"

definition slide_with :: "fill_format \<Rightarrow> shape list \<Rightarrow> slide" where
  "slide_with f ss =
     \<lparr>slide_background = Val \<lparr>bg_fill = Val f\<rparr>, slide_slide_layout = IsNone, shapes = ss\<rparr>"

definition sample_deck :: "slide list \<Rightarrow> presentation" where
  "sample_deck ss = \<lparr>slide_width = 9144000, slide_height = 6858000, slides = ss\<rparr>"

text \<open>
  An environment in which every check passes, the deck \<open>prs\<close> is loaded, no transition
  raises, the encoder leaves \<open>written\<close> at the output path and \<^verbatim>\<open>os.remove\<close> raises
  exactly when \<open>locked\<close>.
\<close>

definition sample_env :: "presentation \<Rightarrow> nat option \<Rightarrow> bool \<Rightarrow> environment" where
  "sample_env prs written locked =
     \<lparr>convert_version = Inr (Some [''Version:'', ''ImageMagick'', ''6.9.11'']),
      guess_type = (\<lambda>p. Some ''application/vnd.officedocument.presentation''),
      makedirs = None,
      load_presentation = (\<lambda>p. Inr prs),
      effect_raises = (\<lambda>t c. False),
      write_videofile = (\<lambda>c output_path fps fs. (None, fs(output_path := written))),
      remove_raises = (\<lambda>p. locked)\<rparr>"

definition sample_files :: files where
  "sample_files = (\<lambda>p. if p = ''/in.pptx'' then Some 40000 else None)"

section \<open>Properties\<close>

subsection \<open>The loop over the slides\<close>

lemma slides_loop_eq:
  "slides_loop raises sw sh i ss clips =
     clips @ map (\<lambda>(k, s). process_slide raises sw sh k s) (List.enumerate i ss)"
  by (induction ss arbitrary: i clips) simp_all

lemma length_slides_loop:
  "length (slides_loop raises sw sh i ss clips) = length clips + length ss"
  by (simp add: slides_loop_eq)

lemma nth_slides_loop:
  "k < length ss \<Longrightarrow>
     slides_loop raises sw sh i ss [] ! k = process_slide raises sw sh (i + k) (ss ! k)"
  by (simp add: slides_loop_eq nth_enumerate_eq)

lemma process_slide_cases:
  "process_slide raises sw sh i s =
     (case create_slide_clip s 1920 1080 (5 / 2) sw sh of
        Inr c \<Rightarrow> apply_transition_effect raises c (transitions ! (i mod 4)) (1 / 2)
      | Inl e \<Rightarrow> ImageClip (NewImage (1920, 1080) (RGB 255 255 255) []) (1 / 2))"
proof -
  have "length transitions = 4" by (simp add: transitions_def)
  moreover have "(2 :: rat) + 1 / 2 = 5 / 2" by simp
  ultimately show ?thesis by (simp add: process_slide_def Let_def split: sum.split)
qed

lemma transitions_cycle:
  "transitions ! (i mod length transitions) =
     (if i mod 4 = 0 then ''fade'' else if i mod 4 = 1 then ''slide_left''
      else if i mod 4 = 2 then ''slide_right'' else ''zoom'')"
proof -
  have "i mod 4 < 4" by simp
  then consider "i mod 4 = 0" | "i mod 4 = 1" | "i mod 4 = 2" | "i mod 4 = 3" by linarith
  then show ?thesis
    by cases (simp_all add: transitions_def)
qed

text \<open>
  Claim C2. The slide with 1-based index \<open>i\<close> is given the transition
  \<^verbatim>\<open>transitions[i % 4]\<close> of the list fade, slide_left, slide_right, zoom: the clip at
  position \<open>k\<close> of the loop's result is the clip of slide \<open>k + 1\<close> wrapped in
  \<open>transitions ! ((k + 1) mod 4)\<close> (the white frame when the slide could not be
  rendered). Slides 1 to 5 get slide_left, slide_right, zoom, fade, slide_left, and the
  choice repeats with period 4.
\<close>

theorem transition_is_function_of_index:
  "(\<forall>k < length ss.
      slides_loop raises sw sh 1 ss [] ! k =
        (case create_slide_clip (ss ! k) 1920 1080 (5 / 2) sw sh of
           Inr c \<Rightarrow> apply_transition_effect raises c (transitions ! (Suc k mod 4)) (1 / 2)
         | Inl e \<Rightarrow> ImageClip (NewImage (1920, 1080) (RGB 255 255 255) []) (1 / 2)))
   \<and> map (\<lambda>i. transitions ! (i mod 4)) [1, 2, 3, 4, 5] =
       [''slide_left'', ''slide_right'', ''zoom'', ''fade'', ''slide_left'']
   \<and> (\<forall>i. transitions ! ((i + 4) mod 4) = transitions ! (i mod 4))"
proof -
  have len: "length transitions = 4" by (simp add: transitions_def)
  have "\<forall>k < length ss.
      slides_loop raises sw sh 1 ss [] ! k =
        (case create_slide_clip (ss ! k) 1920 1080 (5 / 2) sw sh of
           Inr c \<Rightarrow> apply_transition_effect raises c (transitions ! (Suc k mod 4)) (1 / 2)
         | Inl e \<Rightarrow> ImageClip (NewImage (1920, 1080) (RGB 255 255 255) []) (1 / 2))"
    by (simp add: nth_slides_loop process_slide_cases)
  moreover have "map (\<lambda>i. transitions ! (i mod 4)) [1, 2, 3, 4, 5] =
       [''slide_left'', ''slide_right'', ''zoom'', ''fade'', ''slide_left'']"
    by (simp add: transitions_def)
  ultimately show ?thesis by simp
qed


subsection \<open>Durations\<close>

lemma list_max_const:
  "xs \<noteq> [] \<Longrightarrow> \<forall>x \<in> set xs. x = d \<Longrightarrow> list_max xs = d"
proof (cases xs)
  case Nil
  then show "xs \<noteq> [] \<Longrightarrow> ?thesis" by simp
next
  case (Cons y ys)
  assume all: "\<forall>x \<in> set xs. x = d"
  have "\<forall>x \<in> set zs. x = d \<Longrightarrow> fold max zs d = d" for zs
    by (induction zs) simp_all
  with all Cons show ?thesis by simp
qed

lemma sum_bind_Inr_iff:
  "sum_bind m f = Inr r \<longleftrightarrow> (\<exists>v. m = Inr v \<and> f v = Inr r)"
  by (cases m) (simp_all add: sum_bind_def)

lemma sum_bind_Inl_iff:
  "sum_bind m f = Inl e \<longleftrightarrow> m = Inl e \<or> (\<exists>v. m = Inr v \<and> f v = Inl e)"
  by (cases m) (simp_all add: sum_bind_def)

lemma clip_duration_layer [simp]: "clip_duration (layer w h ops d) = d"
  by (simp add: layer_def)

lemma fill_clips_duration:
  assumes "fill_clips w h d sw sh s = Inr cs"
  shows "\<forall>c \<in> set cs. clip_duration c = d"
proof (cases "shape_fill s")
  case NoAttr
  with assms show ?thesis by (simp add: fill_clips_def)
next
  case IsNone
  with assms show ?thesis by (simp add: fill_clips_def)
next
  case (Val f)
  show ?thesis
  proof (cases "fill_type f = Some FILL_SOLID")
    case False
    with assms Val show ?thesis by (simp add: fill_clips_def)
  next
    case True
    with assms Val obtain x y bw bh where
      "(case fore_rgb f of
          NoAttr \<Rightarrow> Inl AttributeError
        | IsNone \<Rightarrow> Inl TypeError
        | Val (cr, cg, cb) \<Rightarrow>
            Inr [layer w h [Rectangle x y (x + bw) (y + bh) (RGBA cr cg cb 255) None] d])
       = Inr cs"
      by (auto simp: fill_clips_def sum_bind_Inr_iff)
    then show ?thesis
      by (cases "fore_rgb f") auto
  qed
qed

lemma picture_clips_duration:
  "picture_clips w h d sw sh s = Inr cs \<Longrightarrow> \<forall>c \<in> set cs. clip_duration c = d"
  by (auto simp: picture_clips_def sum_bind_Inr_iff
           split: attr.splits picture.splits prod.splits if_splits)

lemma table_clips_duration:
  "table_clips w h d s = Inr cs \<Longrightarrow> \<forall>c \<in> set cs. clip_duration c = d"
  by (auto simp: table_clips_def Let_def split: attr.splits if_splits)

lemma content_clips_duration:
  "content_clips w h d sw sh s = Inr cs \<Longrightarrow> \<forall>c \<in> set cs. clip_duration c = d"
  using picture_clips_duration [of w h d sw sh s] table_clips_duration [of w h d s]
  by (auto simp: content_clips_def sum_bind_Inr_iff
           split: attr.splits computed.splits mso_shape_type.splits)

lemma render_shape_duration:
  "\<forall>c \<in> set (snd (render_shape w h d sw sh s)). clip_duration c = d"
  using fill_clips_duration [of w h d sw sh s] content_clips_duration [of w h d sw sh s]
  by (auto simp: render_shape_def split: sum.splits)

lemma shapes_loop_duration:
  "shapes_loop w h d sw sh ss clips = Inr cs \<Longrightarrow>
     \<forall>c \<in> set clips. clip_duration c = d \<Longrightarrow> \<forall>c \<in> set cs. clip_duration c = d"
proof (induction ss arbitrary: clips)
  case Nil
  then show ?case by simp
next
  case (Cons s ss)
  from Cons.prems(1) obtain t where t: "shape_type s = Returns t"
    and loop: "shapes_loop w h d sw sh ss (clips @ snd (render_shape w h d sw sh s)) = Inr cs"
    by (auto split: computed.splits)
  show ?case
    using Cons.IH [OF loop] Cons.prems(2) render_shape_duration [of w h d sw sh s] by auto
qed

lemma shapes_loop_prefix:
  "shapes_loop w h d sw sh ss clips = Inr cs \<Longrightarrow> \<exists>rest. cs = clips @ rest"
proof (induction ss arbitrary: clips)
  case Nil
  then show ?case by simp
next
  case (Cons s ss)
  then show ?case by (fastforce split: computed.splits)
qed

lemma create_slide_clip_duration:
  assumes "create_slide_clip s w h d sw sh = Inr c"
  shows "clip_duration c = d"
proof -
  from assms obtain img where bg: "slide_background_image s w h = Inr img"
    by (auto simp: create_slide_clip_def split: sum.splits)
  show ?thesis
  proof (cases "shapes_loop w h d sw sh (shapes s) [ImageClip img d]")
    case (Inl e)
    with assms bg show ?thesis by (auto simp: create_slide_clip_def)
  next
    case (Inr clips)
    then have all: "\<forall>c \<in> set clips. clip_duration c = d"
      by (rule shapes_loop_duration) simp
    from Inr obtain rest where rest: "clips = ImageClip img d # rest"
      using shapes_loop_prefix by fastforce
    show ?thesis
    proof (cases "length clips > 1")
      case True
      with assms bg Inr have "c = CompositeVideoClip clips (Some (w, h))"
        by (simp add: create_slide_clip_def)
      moreover have "list_max (map clip_duration clips) = d"
        using all rest by (intro list_max_const) auto
      ultimately show ?thesis by simp
    next
      case False
      with assms bg Inr rest show ?thesis by (auto simp: create_slide_clip_def)
    qed
  qed
qed

lemma apply_transition_effect_duration:
  "clip_duration (apply_transition_effect raises c t d) = clip_duration c"
  by (simp add: apply_transition_effect_def)


lemmas sample_defs = slide_with_def solid_fill_def typed_fill_def square_shape_def red_square_def
  hello_run_def captioned_picture_def table_shape_def unrecognised_shape_def sample_deck_def

lemmas background_defs = slide_background_image_def resolve_background_fill_def
  fill_of_background_def background_image_def sum_bind_def

theorem transition_is_function_of_index_witness:
  "(0 :: nat) < length [slide_with (solid_fill (0, 0, 255)) []]
   \<and> slides_loop (\<lambda>t c. False) 9144000 6858000 1 [slide_with (solid_fill (0, 0, 255)) []] [] ! 0 =
       CompositeVideoClip
         [ColorClip (1920, 1080) (RGB 0 0 0) (5 / 2),
          SetPosition (ImageClip (NewImage (1920, 1080) (RGB 0 0 255) []) (5 / 2))
            FromLeft 1920 (1 / 2)] None"
  using transition_is_function_of_index
    [of "[slide_with (solid_fill (0, 0, 255)) []]" "\<lambda>t c. False" 9144000 6858000]
  by (simp add: sample_defs background_defs create_slide_clip_def apply_transition_effect_def
        transitions_def image_size_def)


subsection \<open>The handler of \<^verbatim>\<open>create_slide_clip\<close>\<close>

lemma shapes_loop_Returns:
  "\<forall>s \<in> set ss. \<exists>t. shape_type s = Returns t \<Longrightarrow>
     shapes_loop w h d sw sh ss clips =
       Inr (clips @ concat (map (\<lambda>s. snd (render_shape w h d sw sh s)) ss))"
  by (induction ss arbitrary: clips) auto

lemma shapes_loop_Raises:
  "s \<in> set ss \<Longrightarrow> shape_type s = Raises e \<Longrightarrow>
     \<exists>e'. shapes_loop w h d sw sh ss clips = Inl e'"
  by (induction ss arbitrary: clips) (auto split: computed.splits)

lemma create_slide_clip_unbound:
  "slide_background_image s w h = Inl e \<Longrightarrow>
     create_slide_clip s w h d sw sh = Inl UnboundLocalError"
  by (simp add: create_slide_clip_def)

lemma create_slide_clip_bound:
  "slide_background_image s w h = Inr img \<Longrightarrow> \<exists>c. create_slide_clip s w h d sw sh = Inr c"
  by (auto simp: create_slide_clip_def Let_def split: sum.splits list.splits)

lemma create_slide_clip_handler:
  "slide_background_image s w h = Inr img \<Longrightarrow>
   shapes_loop w h d sw sh (shapes s) [ImageClip img d] = Inl e \<Longrightarrow>
     create_slide_clip s w h d sw sh = Inr (ImageClip img d)"
  by (simp add: create_slide_clip_def)

lemma gradient_background_raises:
  "resolve_background_fill s = Inr (Some f) \<Longrightarrow> fill_type f = Some FILL_GRADIENT \<Longrightarrow>
     slide_background_image s w h = Inl NameError"
  by (simp add: slide_background_image_def sum_bind_def background_image_def)

text \<open>
  Claim C10. The handler of \<^verbatim>\<open>create_slide_clip\<close> can hand back the background clip only
  once that clip exists. An exception raised while the background is resolved (a
  gradient fill is one way) makes the handler's own \<^verbatim>\<open>return\<close> raise, and the function
  ends with \<^verbatim>\<open>UnboundLocalError\<close> instead of a clip. Once the background image is there
  the function always returns a clip, and an exception that leaves the loop over the
  shapes is answered with the bare background clip.
\<close>

theorem fallback_requires_bound_background_clip:
  "(\<forall>e. slide_background_image s w h = Inl e \<longrightarrow>
        create_slide_clip s w h d sw sh = Inl UnboundLocalError)
   \<and> (\<forall>f. resolve_background_fill s = Inr (Some f) \<longrightarrow> fill_type f = Some FILL_GRADIENT \<longrightarrow>
        create_slide_clip s w h d sw sh = Inl UnboundLocalError)
   \<and> (\<forall>img. slide_background_image s w h = Inr img \<longrightarrow>
        (\<exists>c. create_slide_clip s w h d sw sh = Inr c)
        \<and> (\<forall>e. shapes_loop w h d sw sh (shapes s) [ImageClip img d] = Inl e \<longrightarrow>
              create_slide_clip s w h d sw sh = Inr (ImageClip img d)))"
  using create_slide_clip_unbound [of s w h _ d sw sh]
    gradient_background_raises [of s _ w h]
    create_slide_clip_bound [of s w h _ d sw sh]
    create_slide_clip_handler [of s w h _ d sw sh]
  by blast

theorem fallback_requires_bound_background_clip_witness:
  "slide_background_image (slide_with (typed_fill FILL_GRADIENT) [square_shape]) 1920 1080
     = Inl NameError
   \<and> create_slide_clip (slide_with (typed_fill FILL_GRADIENT) [square_shape]) 1920 1080 (5 / 2)
       9144000 6858000 = Inl UnboundLocalError
   \<and> slide_background_image (slide_with (solid_fill (0, 0, 255)) [unrecognised_shape]) 1920 1080
       = Inr (NewImage (1920, 1080) (RGB 0 0 255) [])
   \<and> shapes_loop 1920 1080 (5 / 2) 9144000 6858000
        (shapes (slide_with (solid_fill (0, 0, 255)) [unrecognised_shape]))
        [ImageClip (NewImage (1920, 1080) (RGB 0 0 255) []) (5 / 2)] = Inl NotImplementedError
   \<and> create_slide_clip (slide_with (solid_fill (0, 0, 255)) [unrecognised_shape]) 1920 1080 (5 / 2)
       9144000 6858000 = Inr (ImageClip (NewImage (1920, 1080) (RGB 0 0 255) []) (5 / 2))"
proof -
  have a: "slide_background_image (slide_with (typed_fill FILL_GRADIENT) [square_shape]) 1920 1080
     = Inl NameError"
    by (simp add: sample_defs background_defs)
  have b: "slide_background_image (slide_with (solid_fill (0, 0, 255)) [unrecognised_shape]) 1920 1080
       = Inr (NewImage (1920, 1080) (RGB 0 0 255) [])"
    by (simp add: sample_defs background_defs)
  have c: "shapes_loop 1920 1080 (5 / 2) 9144000 6858000
        (shapes (slide_with (solid_fill (0, 0, 255)) [unrecognised_shape]))
        [ImageClip (NewImage (1920, 1080) (RGB 0 0 255) []) (5 / 2)] = Inl NotImplementedError"
    by (simp add: sample_defs)
  show ?thesis
    using a b c
      fallback_requires_bound_background_clip
        [of "slide_with (typed_fill FILL_GRADIENT) [square_shape]" 1920 1080 "5 / 2"
            9144000 6858000]
      fallback_requires_bound_background_clip
        [of "slide_with (solid_fill (0, 0, 255)) [unrecognised_shape]" 1920 1080 "5 / 2"
            9144000 6858000]
    by simp
qed


subsection \<open>Backgrounds\<close>

lemma patterned_background_is_white:
  "fill_type f = Some FILL_PATTERNED \<Longrightarrow>
     background_image (Some f) w h = Inr (NewImage (w, h) (RGB 255 255 255) [])"
  by (simp add: background_image_def)

text \<open>
  Claim C5 says a gradient fill is rendered as an interpolated gradient and a pattern
  fill as a checkerboard. The code does neither. A slide with a gradient background
  makes \<^verbatim>\<open>create_slide_clip\<close> raise (the helper it calls does not exist), and the slide
  becomes the white half-second frame; a slide with a patterned background gets a plain
  white background, although \<^verbatim>\<open>create_pattern_background\<close> would draw the tiles.
\<close>

theorem gradient_and_pattern_backgrounds:
  "create_slide_clip (slide_with (typed_fill FILL_GRADIENT) []) 1920 1080 (5 / 2) 9144000 6858000
     = Inl UnboundLocalError
   \<and> process_slide (\<lambda>t c. False) 9144000 6858000 1 (slide_with (typed_fill FILL_GRADIENT) [])
       = ImageClip (NewImage (1920, 1080) (RGB 255 255 255) []) (1 / 2)
   \<and> create_slide_clip (slide_with (typed_fill FILL_PATTERNED) []) 1920 1080 (5 / 2)
       9144000 6858000
       = Inr (ImageClip (NewImage (1920, 1080) (RGB 255 255 255) []) (5 / 2))
   \<and> create_pattern_background (RGB 0 0 0) (RGB 255 255 0) 40 40
       = NewImage (40, 40) (RGB 255 255 0)
           [Rectangle 0 0 20 20 (RGB 0 0 0) None, Rectangle 20 20 40 40 (RGB 0 0 0) None]"
proof -
  have g: "create_slide_clip (slide_with (typed_fill FILL_GRADIENT) []) 1920 1080 (5 / 2)
      9144000 6858000 = Inl UnboundLocalError"
    by (simp add: sample_defs background_defs create_slide_clip_def)
  have p: "create_slide_clip (slide_with (typed_fill FILL_PATTERNED) []) 1920 1080 (5 / 2)
       9144000 6858000
       = Inr (ImageClip (NewImage (1920, 1080) (RGB 255 255 255) []) (5 / 2))"
    by (simp add: sample_defs background_defs create_slide_clip_def)
  have r: "range_step 40 40 = [0]"
    by (simp add: range_step_def)
  have c: "create_pattern_background (RGB 0 0 0) (RGB 255 255 0) 40 40
       = NewImage (40, 40) (RGB 255 255 0)
           [Rectangle 0 0 20 20 (RGB 0 0 0) None, Rectangle 20 20 40 40 (RGB 0 0 0) None]"
    by (simp add: create_pattern_background_def r)
  show ?thesis
    using g p c by (simp add: process_slide_cases)
qed

subsection \<open>One shape at a time\<close>

lemma undecodable_picture_is_skipped:
  "text_frame s = NoAttr \<Longrightarrow> shape_type s = Returns PICTURE \<Longrightarrow>
   shape_image s = Val (Undecodable b) \<Longrightarrow> shape_fill s = NoAttr \<Longrightarrow>
     render_shape w h d sw sh s = (Some UnidentifiedImageError, [])"
  by (simp add: render_shape_def fill_clips_def content_clips_def picture_clips_def)

lemma shapes_loop_append:
  "\<forall>s \<in> set (xs @ ys). \<exists>t. shape_type s = Returns t \<Longrightarrow>
     shapes_loop w h d sw sh (xs @ ys) clips =
       sum_bind (shapes_loop w h d sw sh xs clips) (shapes_loop w h d sw sh ys)"
  by (simp add: shapes_loop_Returns sum_bind_def)

text \<open>
  Claim C8 says one bad shape never blanks the slide. An exception inside the inner
  \<^verbatim>\<open>try\<close> is indeed local to its shape (\<open>shapes_loop_Returns\<close>,
  \<open>undecodable_picture_is_skipped\<close>). But a shape whose \<^verbatim>\<open>shape_type\<close> raises does so in
  the debug message, before the \<^verbatim>\<open>try\<close>: the slide below has a red square before and
  after such a shape, and its clip is the background alone, while the same slide
  without that shape shows both squares.
\<close>

theorem unreadable_shape_type_blanks_slide:
  "create_slide_clip (slide_with (solid_fill (0, 0, 255)) [red_square, unrecognised_shape, red_square])
     1920 1080 (5 / 2) 9144000 6858000
     = Inr (ImageClip (NewImage (1920, 1080) (RGB 0 0 255) []) (5 / 2))
   \<and> create_slide_clip (slide_with (solid_fill (0, 0, 255)) [red_square, red_square])
     1920 1080 (5 / 2) 9144000 6858000
     = Inr (CompositeVideoClip
              [ImageClip (NewImage (1920, 1080) (RGB 0 0 255) []) (5 / 2),
               layer 1920 1080 [Rectangle 192 144 384 288 (RGBA 255 0 0 255) None] (5 / 2),
               layer 1920 1080 [Rectangle 192 144 384 288 (RGBA 255 0 0 255) None] (5 / 2)]
              (Some (1920, 1080)))"
proof -
  have r: "render_shape 1920 1080 (5 / 2) 9144000 6858000 red_square
     = (None, [layer 1920 1080 [Rectangle 192 144 384 288 (RGBA 255 0 0 255) None] (5 / 2)])"
    by code_simp
  have t: "shape_type red_square = Returns AUTO_SHAPE"
    by (simp add: red_square_def square_shape_def)
  have b: "slide_background_image (slide_with (solid_fill (0, 0, 255)) ss) 1920 1080
      = Inr (NewImage (1920, 1080) (RGB 0 0 255) [])" for ss
    by (simp add: slide_with_def solid_fill_def background_defs)
  have "shapes_loop 1920 1080 (5 / 2) 9144000 6858000
          [red_square, unrecognised_shape, red_square]
          [ImageClip (NewImage (1920, 1080) (RGB 0 0 255) []) (5 / 2)] = Inl NotImplementedError"
    by (simp add: t unrecognised_shape_def)
  then have bad: "create_slide_clip
       (slide_with (solid_fill (0, 0, 255)) [red_square, unrecognised_shape, red_square])
       1920 1080 (5 / 2) 9144000 6858000
     = Inr (ImageClip (NewImage (1920, 1080) (RGB 0 0 255) []) (5 / 2))"
    by (simp add: create_slide_clip_def b) (simp add: slide_with_def)
  have "shapes_loop 1920 1080 (5 / 2) 9144000 6858000 [red_square, red_square]
          [ImageClip (NewImage (1920, 1080) (RGB 0 0 255) []) (5 / 2)]
      = Inr [ImageClip (NewImage (1920, 1080) (RGB 0 0 255) []) (5 / 2),
             layer 1920 1080 [Rectangle 192 144 384 288 (RGBA 255 0 0 255) None] (5 / 2),
             layer 1920 1080 [Rectangle 192 144 384 288 (RGBA 255 0 0 255) None] (5 / 2)]"
    by (simp add: t r)
  then have good: "create_slide_clip (slide_with (solid_fill (0, 0, 255)) [red_square, red_square])
     1920 1080 (5 / 2) 9144000 6858000
     = Inr (CompositeVideoClip
              [ImageClip (NewImage (1920, 1080) (RGB 0 0 255) []) (5 / 2),
               layer 1920 1080 [Rectangle 192 144 384 288 (RGBA 255 0 0 255) None] (5 / 2),
               layer 1920 1080 [Rectangle 192 144 384 288 (RGBA 255 0 0 255) None] (5 / 2)]
              (Some (1920, 1080)))"
    by (simp add: create_slide_clip_def b) (simp add: slide_with_def)
  from bad good show ?thesis by (intro conjI)
qed


subsection \<open>Segments of the video\<close>

lemma convert_pptx_to_video_encodes:
  assumes "load_presentation env pptx_path = Inr prs" and "slides prs \<noteq> []"
  shows "convert_pptx_to_video env pptx_path output_path fs =
     (case write_videofile env
             (Concatenate (map (\<lambda>(k, s). process_slide (effect_raises env) (slide_width prs)
                                   (slide_height prs) k s)
                             (List.enumerate 1 (slides prs))))
             output_path 24 fs of
        (Some e, fs') \<Rightarrow> (Inl (conversion_failed e), fs')
      | (None, fs') \<Rightarrow> (Inr (), fs'))"
proof -
  from assms(2) have "List.enumerate 1 (slides prs) \<noteq> []"
    by (cases "slides prs") simp_all
  with assms(1) show ?thesis
    by (simp add: convert_pptx_to_video_def slides_loop_eq Let_def)
qed

text \<open>
  Claim C6, as stated, gives every segment, the fallback included, the duration
  \<open>2 + 0.5\<close>. A deck of one slide that fails to render yields one segment, the white
  frame, and it lasts half a second and carries no transition.
\<close>

theorem fallback_segment_is_short_counterexample:
  "slides_loop (\<lambda>t c. False) 9144000 6858000 1
       [slide_with (typed_fill FILL_GRADIENT) [red_square]] []
     = [ImageClip (NewImage (1920, 1080) (RGB 255 255 255) []) (1 / 2)]
   \<and> clip_duration
         (slides_loop (\<lambda>t c. False) 9144000 6858000 1
            [slide_with (typed_fill FILL_GRADIENT) [red_square]] [] ! 0) = 1 / 2"
proof -
  have "create_slide_clip (slide_with (typed_fill FILL_GRADIENT) [red_square]) 1920 1080 (5 / 2)
      9144000 6858000 = Inl UnboundLocalError"
    by (simp add: slide_with_def typed_fill_def background_defs create_slide_clip_def)
  then show ?thesis
    by (simp add: process_slide_cases)
qed

text \<open>
  Claim C6, amended. A deck of \<open>N\<close> slides yields exactly \<open>N\<close> segments in slide
  order. The segment of a slide that rendered is its clip wrapped in the transition
  of its index and lasts 2.5 seconds; the segment of a slide that failed to render is
  the white frame, without transition, and lasts 0.5 seconds. The clip handed to the
  encoder is the concatenation of these segments.
\<close>

theorem one_segment_per_slide:
  "length (slides_loop raises sw sh 1 ss []) = length ss
   \<and> (\<forall>k < length ss.
        (\<forall>c. create_slide_clip (ss ! k) 1920 1080 (5 / 2) sw sh = Inr c \<longrightarrow>
           slides_loop raises sw sh 1 ss [] ! k =
             apply_transition_effect raises c (transitions ! (Suc k mod 4)) (1 / 2)
           \<and> clip_duration (slides_loop raises sw sh 1 ss [] ! k) = 5 / 2)
        \<and> (\<forall>e. create_slide_clip (ss ! k) 1920 1080 (5 / 2) sw sh = Inl e \<longrightarrow>
           slides_loop raises sw sh 1 ss [] ! k =
             ImageClip (NewImage (1920, 1080) (RGB 255 255 255) []) (1 / 2)
           \<and> clip_duration (slides_loop raises sw sh 1 ss [] ! k) = 1 / 2))
   \<and> (\<forall>env p out fs prs.
        load_presentation env p = Inr prs \<longrightarrow> slides prs \<noteq> [] \<longrightarrow>
          convert_pptx_to_video env p out fs =
            (case write_videofile env
                    (Concatenate (slides_loop (effect_raises env) (slide_width prs)
                                    (slide_height prs) 1 (slides prs) []))
                    out 24 fs of
               (Some e, fs') \<Rightarrow> (Inl (conversion_failed e), fs')
             | (None, fs') \<Rightarrow> (Inr (), fs')))"
proof -
  have "length (slides_loop raises sw sh 1 ss []) = length ss"
    by (simp add: length_slides_loop)
  moreover have "slides_loop raises sw sh 1 ss [] ! k =
             apply_transition_effect raises c (transitions ! (Suc k mod 4)) (1 / 2)
           \<and> clip_duration (slides_loop raises sw sh 1 ss [] ! k) = 5 / 2"
    if "k < length ss" and "create_slide_clip (ss ! k) 1920 1080 (5 / 2) sw sh = Inr c" for k c
    using that create_slide_clip_duration [OF that(2)]
    by (simp add: nth_slides_loop process_slide_cases apply_transition_effect_duration)
  moreover have "slides_loop raises sw sh 1 ss [] ! k =
             ImageClip (NewImage (1920, 1080) (RGB 255 255 255) []) (1 / 2)
           \<and> clip_duration (slides_loop raises sw sh 1 ss [] ! k) = 1 / 2"
    if "k < length ss" and "create_slide_clip (ss ! k) 1920 1080 (5 / 2) sw sh = Inl e" for k e
    using that by (simp add: nth_slides_loop process_slide_cases)
  moreover have "convert_pptx_to_video env p out fs =
            (case write_videofile env
                    (Concatenate (slides_loop (effect_raises env) (slide_width prs)
                                    (slide_height prs) 1 (slides prs) []))
                    out 24 fs of
               (Some e, fs') \<Rightarrow> (Inl (conversion_failed e), fs')
             | (None, fs') \<Rightarrow> (Inr (), fs'))"
    if "load_presentation env p = Inr prs" and "slides prs \<noteq> []" for env p out fs prs
    using convert_pptx_to_video_encodes [OF that] by (simp add: slides_loop_eq)
  ultimately show ?thesis by blast
qed

theorem one_segment_per_slide_witness:
  "length (slides_loop (\<lambda>t c. False) 9144000 6858000 1
       [slide_with (solid_fill (0, 0, 255)) [], slide_with (typed_fill FILL_GRADIENT) []] []) = 2
   \<and> clip_duration (slides_loop (\<lambda>t c. False) 9144000 6858000 1
       [slide_with (solid_fill (0, 0, 255)) [], slide_with (typed_fill FILL_GRADIENT) []] [] ! 0)
       = 5 / 2
   \<and> clip_duration (slides_loop (\<lambda>t c. False) 9144000 6858000 1
       [slide_with (solid_fill (0, 0, 255)) [], slide_with (typed_fill FILL_GRADIENT) []] [] ! 1)
       = 1 / 2
   \<and> convert_pptx_to_video
        (sample_env
           (sample_deck
              [slide_with (solid_fill (0, 0, 255)) [], slide_with (typed_fill FILL_GRADIENT) []])
           (Some 5000) False)
        ''/in.pptx'' ''/out.mp4'' sample_files
       = (Inr (), sample_files(''/out.mp4'' := Some 5000))"
proof -
  define ss where
    "ss = [slide_with (solid_fill (0, 0, 255)) [], slide_with (typed_fill FILL_GRADIENT) []]"
  define env where "env = sample_env (sample_deck ss) (Some 5000) False"
  have len: "length ss = 2" by (simp add: ss_def)
  have a: "create_slide_clip (ss ! 0) 1920 1080 (5 / 2) 9144000 6858000
      = Inr (ImageClip (NewImage (1920, 1080) (RGB 0 0 255) []) (5 / 2))"
    by (simp add: ss_def slide_with_def solid_fill_def background_defs create_slide_clip_def)
  have b: "create_slide_clip (ss ! 1) 1920 1080 (5 / 2) 9144000 6858000 = Inl UnboundLocalError"
    by (simp add: ss_def slide_with_def typed_fill_def background_defs create_slide_clip_def)
  have l: "load_presentation env ''/in.pptx'' = Inr (sample_deck ss)"
    and n: "slides (sample_deck ss) \<noteq> []"
    and w: "\<And>c. write_videofile env c ''/out.mp4'' 24 sample_files
              = (None, sample_files(''/out.mp4'' := Some 5000))"
    by (simp_all add: env_def sample_env_def sample_deck_def ss_def)
  note t = one_segment_per_slide [of "\<lambda>t c. False" 9144000 6858000 ss]
  have k0: "0 < length ss" and k1: "1 < length ss" by (simp_all add: ss_def)
  have "length (slides_loop (\<lambda>t c. False) 9144000 6858000 1 ss []) = 2"
    using t [THEN conjunct1] len by simp
  moreover
  have "clip_duration (slides_loop (\<lambda>t c. False) 9144000 6858000 1 ss [] ! 0) = 5 / 2"
    using t [THEN conjunct2, THEN conjunct1, rule_format, OF k0, THEN conjunct1, rule_format,
             OF a, THEN conjunct2] .
  moreover
  have "clip_duration (slides_loop (\<lambda>t c. False) 9144000 6858000 1 ss [] ! 1) = 1 / 2"
    using t [THEN conjunct2, THEN conjunct1, rule_format, OF k1, THEN conjunct2, rule_format,
             OF b, THEN conjunct2] .
  moreover have "convert_pptx_to_video env ''/in.pptx'' ''/out.mp4'' sample_files
       = (Inr (), sample_files(''/out.mp4'' := Some 5000))"
    using t [THEN conjunct2, THEN conjunct2, rule_format, OF l n, of "''/out.mp4''" sample_files]
    by (simp add: w)
  ultimately show ?thesis
    unfolding env_def ss_def by (intro conjI)
qed


subsection \<open>Fill first, then one kind of content\<close>









subsection \<open>The checks of \<^verbatim>\<open>convert_to_video\<close>\<close>

lemma convert_and_verify_Inr:
  assumes "convert_and_verify env p out fs = (Inr b, fs')"
  shows "b \<and> fs' = snd (convert_pptx_to_video env p out fs)
         \<and> (\<exists>n. fs' out = Some n \<and> 1000 \<le> n)"
  using assms
  by (auto simp: convert_and_verify_def
           split: sum.splits bool.splits if_splits option.splits prod.splits)

lemma convert_to_video_Inr:
  assumes "convert_to_video env p out fs = (Inr b, fs')"
  shows "b \<and> (\<exists>n. fs' out = Some n \<and> 1000 \<le> n)"
proof -
  from assms have "convert_and_verify env p out fs = (Inr b, fs')"
    by (auto simp: convert_to_video_def split: prod.splits sum.splits)
  then show ?thesis using convert_and_verify_Inr by blast
qed

lemma convert_to_video_Inl:
  assumes "fst (convert_to_video env p out fs) = Inl e"
  shows "fst (convert_and_verify env p out fs) = Inl e
         \<and> snd (convert_to_video env p out fs)
             = remove_output env out (snd (convert_and_verify env p out fs))"
  using assms
  by (auto simp: convert_to_video_def split: prod.splits sum.splits)

lemma remove_output_removes:
  "\<not> remove_raises env out \<Longrightarrow> remove_output env out fs out = None"
  by (simp add: remove_output_def)

lemma remove_output_locked:
  "remove_raises env out \<Longrightarrow> remove_output env out fs = fs"
  by (simp add: remove_output_def)

lemma remove_output_absent:
  "fs out = None \<Longrightarrow> remove_output env out fs = fs"
  by (simp add: remove_output_def)

lemma convert_to_video_too_small:
  assumes "check_imagemagick env = Inr True"
    and "verify_file_type env fs p ''officedocument''"
    and "makedirs env = None"
    and "convert_pptx_to_video env p out fs = (Inr (), fs1)"
    and "fs1 out = Some n" and "n < 1000"
  shows "convert_to_video env p out fs =
           (Inl (ValueError (''Generated video is too small ('' @ str_nat n @ '' bytes)'')),
            remove_output env out fs1)"
  using assms by (simp add: convert_to_video_def convert_and_verify_def)


lemma sample_checks:
  "check_imagemagick (sample_env prs written locked) = Inr True"
  "verify_file_type (sample_env prs written locked) sample_files ''/in.pptx'' ''officedocument''"
  "makedirs (sample_env prs written locked) = None"
  by (simp_all add: check_imagemagick_def verify_file_type_def sample_env_def sample_files_def
        lower_def Let_def)

lemma sample_conversion:
  "convert_pptx_to_video (sample_env (sample_deck [slide_with (solid_fill (0, 0, 255)) []]) written locked)
     ''/in.pptx'' ''/out.mp4'' fs = (Inr (), fs(''/out.mp4'' := written))"
  by (simp add: convert_pptx_to_video_def sample_env_def sample_deck_def Let_def)

text \<open>
  Claim C1, as stated, lets a run succeed only when the file exceeds 1000 bytes and has
  the file deleted before a failure propagates. A file of exactly 1000 bytes is reported
  as a success; and when the encoder leaves 500 bytes and \<^verbatim>\<open>os.remove\<close> raises, the run
  fails with the file still in place.
\<close>

theorem minimum_size_is_inclusive_counterexample:
  "fst (convert_to_video
          (sample_env (sample_deck [slide_with (solid_fill (0, 0, 255)) []]) (Some 1000) False)
          ''/in.pptx'' ''/out.mp4'' sample_files) = Inr True
   \<and> snd (convert_to_video
          (sample_env (sample_deck [slide_with (solid_fill (0, 0, 255)) []]) (Some 1000) False)
          ''/in.pptx'' ''/out.mp4'' sample_files) ''/out.mp4'' = Some 1000
   \<and> fst (convert_to_video
          (sample_env (sample_deck [slide_with (solid_fill (0, 0, 255)) []]) (Some 500) True)
          ''/in.pptx'' ''/out.mp4'' sample_files)
       = Inl (ValueError ''Generated video is too small (500 bytes)'')
   \<and> snd (convert_to_video
          (sample_env (sample_deck [slide_with (solid_fill (0, 0, 255)) []]) (Some 500) True)
          ''/in.pptx'' ''/out.mp4'' sample_files) ''/out.mp4'' = Some 500"
proof -
  have "str_nat 500 = ''500''" by code_simp
  then show ?thesis
    by (simp add: convert_to_video_def convert_and_verify_def sample_checks sample_conversion
          remove_output_def)
       (simp add: sample_env_def)
qed


text \<open>
  Claim C1, amended. \<^verbatim>\<open>convert_to_video\<close> returns only \<^verbatim>\<open>True\<close>, and only when the output
  file exists with at least 1000 bytes. When the conversion returns normally and leaves
  fewer than 1000 bytes, the run fails with the \<^verbatim>\<open>ValueError\<close> of line 570; the file is
  gone afterwards when \<^verbatim>\<open>os.remove\<close> succeeds and still there when it raises.
\<close>

theorem success_needs_a_thousand_bytes:
  "(\<forall>b. fst (convert_to_video env p out fs) = Inr b \<longrightarrow>
      b \<and> (\<exists>n. snd (convert_to_video env p out fs) out = Some n \<and> 1000 \<le> n))
   \<and> (\<forall>fs1 n. check_imagemagick env = Inr True \<longrightarrow>
        verify_file_type env fs p ''officedocument'' \<longrightarrow> makedirs env = None \<longrightarrow>
        convert_pptx_to_video env p out fs = (Inr (), fs1) \<longrightarrow> fs1 out = Some n \<longrightarrow>
        n < 1000 \<longrightarrow>
          convert_to_video env p out fs =
            (Inl (ValueError (''Generated video is too small ('' @ str_nat n @ '' bytes)'')),
             remove_output env out fs1)
          \<and> (\<not> remove_raises env out \<longrightarrow> snd (convert_to_video env p out fs) out = None)
          \<and> (remove_raises env out \<longrightarrow> snd (convert_to_video env p out fs) out = Some n))"
proof -
  have "b \<and> (\<exists>n. snd (convert_to_video env p out fs) out = Some n \<and> 1000 \<le> n)"
    if "fst (convert_to_video env p out fs) = Inr b" for b
    using that convert_to_video_Inr [of env p out fs b "snd (convert_to_video env p out fs)"]
    by (cases "convert_to_video env p out fs") simp
  moreover have "convert_to_video env p out fs =
            (Inl (ValueError (''Generated video is too small ('' @ str_nat n @ '' bytes)'')),
             remove_output env out fs1)
          \<and> (\<not> remove_raises env out \<longrightarrow> snd (convert_to_video env p out fs) out = None)
          \<and> (remove_raises env out \<longrightarrow> snd (convert_to_video env p out fs) out = Some n)"
    if "check_imagemagick env = Inr True" "verify_file_type env fs p ''officedocument''"
      "makedirs env = None" "convert_pptx_to_video env p out fs = (Inr (), fs1)"
      "fs1 out = Some n" "n < 1000" for fs1 n
    using convert_to_video_too_small [OF that] that(5)
    by (simp add: remove_output_removes remove_output_locked)
  ultimately show ?thesis by blast
qed

theorem success_needs_a_thousand_bytes_witness:
  "fst (convert_to_video
          (sample_env (sample_deck [slide_with (solid_fill (0, 0, 255)) []]) (Some 4096) False)
          ''/in.pptx'' ''/out.mp4'' sample_files) = Inr True
   \<and> (\<exists>n. snd (convert_to_video
          (sample_env (sample_deck [slide_with (solid_fill (0, 0, 255)) []]) (Some 4096) False)
          ''/in.pptx'' ''/out.mp4'' sample_files) ''/out.mp4'' = Some n \<and> 1000 \<le> n)
   \<and> (999 :: nat) < 1000
   \<and> fst (convert_to_video
          (sample_env (sample_deck [slide_with (solid_fill (0, 0, 255)) []]) (Some 999) False)
          ''/in.pptx'' ''/out.mp4'' sample_files)
       = Inl (ValueError (''Generated video is too small ('' @ str_nat 999 @ '' bytes)''))
   \<and> snd (convert_to_video
          (sample_env (sample_deck [slide_with (solid_fill (0, 0, 255)) []]) (Some 999) False)
          ''/in.pptx'' ''/out.mp4'' sample_files) ''/out.mp4'' = None"
proof -
  define big where
    "big = sample_env (sample_deck [slide_with (solid_fill (0, 0, 255)) []]) (Some 4096) False"
  define small where
    "small = sample_env (sample_deck [slide_with (solid_fill (0, 0, 255)) []]) (Some 999) False"
  have ok: "fst (convert_to_video big ''/in.pptx'' ''/out.mp4'' sample_files) = Inr True"
    by (simp add: big_def convert_to_video_def convert_and_verify_def sample_checks
          sample_conversion)
  have conv: "convert_pptx_to_video small ''/in.pptx'' ''/out.mp4'' sample_files
      = (Inr (), sample_files(''/out.mp4'' := Some 999))"
    by (simp add: small_def sample_conversion)
  have rm: "\<not> remove_raises small ''/out.mp4''"
    by (simp add: small_def sample_env_def)
  have chk: "check_imagemagick small = Inr True"
    "verify_file_type small sample_files ''/in.pptx'' ''officedocument''"
    "makedirs small = None"
    by (simp_all add: small_def sample_checks)
  have lt: "(999 :: nat) < 1000" by simp
  have out: "(sample_files(''/out.mp4'' := Some 999)) ''/out.mp4'' = Some 999" by simp
  show ?thesis
    using ok conv rm chk lt out
      success_needs_a_thousand_bytes [of big "''/in.pptx''" "''/out.mp4''" sample_files]
      success_needs_a_thousand_bytes [of small "''/in.pptx''" "''/out.mp4''" sample_files]
    unfolding big_def [symmetric] small_def [symmetric]
    by (metis fst_conv)
qed

text \<open>
  Claim C9, as stated, has every failed run leave no file at the output path. A run
  that fails its first check while a file sits at the output path and \<^verbatim>\<open>os.remove\<close>
  raises ends with the exception and with the file still there.
\<close>

theorem locked_output_survives_failure_counterexample:
  "fst (convert_to_video
          ((sample_env (sample_deck []) None True)\<lparr>convert_version := Inr None\<rparr>)
          ''/in.pptx'' ''/out.mp4'' (sample_files(''/out.mp4'' := Some 5000)))
     = Inl (RuntimeError ''ImageMagick is not properly configured'')
   \<and> snd (convert_to_video
          ((sample_env (sample_deck []) None True)\<lparr>convert_version := Inr None\<rparr>)
          ''/in.pptx'' ''/out.mp4'' (sample_files(''/out.mp4'' := Some 5000))) ''/out.mp4''
     = Some 5000"
  by (simp add: convert_to_video_def convert_and_verify_def check_imagemagick_def
        sample_env_def remove_output_def)

text \<open>
  Claim C9, amended. \<^verbatim>\<open>convert_to_video\<close> never returns \<^verbatim>\<open>False\<close>. Before an exception
  leaves it, the removal of the file at the output path is attempted: when
  \<^verbatim>\<open>os.remove\<close> does not raise, no file is at the output path afterwards; when it
  raises, that is passed over and the files stay as the failed run left them.
\<close>

theorem failure_raises_and_tries_to_remove:
  "fst (convert_to_video env p out fs) \<noteq> Inr False
   \<and> (\<forall>e. fst (convert_to_video env p out fs) = Inl e \<longrightarrow>
        snd (convert_to_video env p out fs)
          = remove_output env out (snd (convert_and_verify env p out fs))
        \<and> (\<not> remove_raises env out \<longrightarrow> snd (convert_to_video env p out fs) out = None)
        \<and> (remove_raises env out \<longrightarrow>
             snd (convert_to_video env p out fs) = snd (convert_and_verify env p out fs)))"
proof -
  have "fst (convert_to_video env p out fs) \<noteq> Inr False"
    using convert_to_video_Inr [of env p out fs False "snd (convert_to_video env p out fs)"]
    by (cases "convert_to_video env p out fs") auto
  moreover have "snd (convert_to_video env p out fs)
          = remove_output env out (snd (convert_and_verify env p out fs))
        \<and> (\<not> remove_raises env out \<longrightarrow> snd (convert_to_video env p out fs) out = None)
        \<and> (remove_raises env out \<longrightarrow>
             snd (convert_to_video env p out fs) = snd (convert_and_verify env p out fs))"
    if "fst (convert_to_video env p out fs) = Inl e" for e
    using convert_to_video_Inl [OF that]
    by (simp add: remove_output_removes remove_output_locked)
  ultimately show ?thesis by blast
qed

theorem failure_raises_and_tries_to_remove_witness:
  "fst (convert_to_video
          ((sample_env (sample_deck []) None False)\<lparr>convert_version := Inr None\<rparr>)
          ''/in.pptx'' ''/out.mp4'' (sample_files(''/out.mp4'' := Some 7000)))
     = Inl (RuntimeError ''ImageMagick is not properly configured'')
   \<and> \<not> remove_raises ((sample_env (sample_deck []) None False)\<lparr>convert_version := Inr None\<rparr>)
         ''/out.mp4''
   \<and> snd (convert_to_video
          ((sample_env (sample_deck []) None False)\<lparr>convert_version := Inr None\<rparr>)
          ''/in.pptx'' ''/out.mp4'' (sample_files(''/out.mp4'' := Some 7000))) ''/out.mp4''
     = None"
proof -
  define env where "env = (sample_env (sample_deck []) None False)\<lparr>convert_version := Inr None\<rparr>"
  have f: "fst (convert_to_video env ''/in.pptx'' ''/out.mp4''
                 (sample_files(''/out.mp4'' := Some 7000)))
     = Inl (RuntimeError ''ImageMagick is not properly configured'')"
    by (simp add: env_def convert_to_video_def convert_and_verify_def check_imagemagick_def
          sample_env_def)
  have r: "\<not> remove_raises env ''/out.mp4''"
    by (simp add: env_def sample_env_def)
  show ?thesis
    using f r
      failure_raises_and_tries_to_remove
        [of env "''/in.pptx''" "''/out.mp4''" "sample_files(''/out.mp4'' := Some 7000)"]
    unfolding env_def [symmetric]
    by blast
qed


lemma no_slides_message:
  "conversion_failed (ValueError ''No valid slides were processed'')
     = RuntimeError ''Failed to convert PPTX to video: No valid slides were processed''"
  by (simp add: conversion_failed_def str_of_def)

lemma convert_pptx_to_video_no_slides:
  assumes "load_presentation env p = Inr prs" and "slides prs = []"
  shows "convert_pptx_to_video env p out fs =
     (Inl (RuntimeError ''Failed to convert PPTX to video: No valid slides were processed''), fs)"
  using assms by (simp add: convert_pptx_to_video_def no_slides_message)

text \<open>
  Claim C3. For a deck without slides \<^verbatim>\<open>convert_pptx_to_video\<close> fails with the message
  "No valid slides were processed" (wrapped by its handler in a \<^verbatim>\<open>RuntimeError\<close>) and
  leaves the files untouched, whatever the encoder would do: the encoder is never run
  and no file is produced. \<^verbatim>\<open>convert_to_video\<close> passes that error on, and an output path
  that held no file before the run holds none after it.
\<close>

theorem empty_deck_fails_before_encoding:
  "load_presentation env p = Inr prs \<longrightarrow> slides prs = [] \<longrightarrow>
     (\<forall>enc. convert_pptx_to_video (env\<lparr>write_videofile := enc\<rparr>) p out fs =
        (Inl (RuntimeError ''Failed to convert PPTX to video: No valid slides were processed''),
         fs))
     \<and> (check_imagemagick env = Inr True \<longrightarrow>
          verify_file_type env fs p ''officedocument'' \<longrightarrow> makedirs env = None \<longrightarrow>
            convert_to_video env p out fs =
              (Inl (RuntimeError
                      ''Failed to convert PPTX to video: No valid slides were processed''),
               remove_output env out fs)
            \<and> (fs out = None \<longrightarrow> snd (convert_to_video env p out fs) = fs))"
proof (intro impI conjI allI)
  fix enc
  assume "load_presentation env p = Inr prs" and "slides prs = []"
  then show "convert_pptx_to_video (env\<lparr>write_videofile := enc\<rparr>) p out fs =
        (Inl (RuntimeError ''Failed to convert PPTX to video: No valid slides were processed''),
         fs)"
    by (intro convert_pptx_to_video_no_slides [of _ _ prs]) simp_all
next
  assume a: "load_presentation env p = Inr prs" "slides prs = []"
    "check_imagemagick env = Inr True" "verify_file_type env fs p ''officedocument''"
    "makedirs env = None"
  then show r: "convert_to_video env p out fs =
              (Inl (RuntimeError
                      ''Failed to convert PPTX to video: No valid slides were processed''),
               remove_output env out fs)"
    by (simp add: convert_to_video_def convert_and_verify_def
          convert_pptx_to_video_no_slides [of env p prs])
  assume "fs out = None"
  with r show "snd (convert_to_video env p out fs) = fs"
    by (simp add: remove_output_absent)
qed

theorem empty_deck_fails_before_encoding_witness:
  "load_presentation (sample_env (sample_deck []) (Some 5000) False) ''/in.pptx''
     = Inr (sample_deck [])
   \<and> slides (sample_deck []) = []
   \<and> convert_pptx_to_video (sample_env (sample_deck []) (Some 5000) False)
        ''/in.pptx'' ''/out.mp4'' sample_files
       = (Inl (RuntimeError ''Failed to convert PPTX to video: No valid slides were processed''),
          sample_files)
   \<and> sample_files ''/out.mp4'' = None
   \<and> fst (convert_to_video (sample_env (sample_deck []) (Some 5000) False)
        ''/in.pptx'' ''/out.mp4'' sample_files)
       = Inl (RuntimeError ''Failed to convert PPTX to video: No valid slides were processed'')
   \<and> snd (convert_to_video (sample_env (sample_deck []) (Some 5000) False)
        ''/in.pptx'' ''/out.mp4'' sample_files) = sample_files"
proof -
  define env where "env = sample_env (sample_deck []) (Some 5000) False"
  have l: "load_presentation env ''/in.pptx'' = Inr (sample_deck [])"
    and e: "slides (sample_deck []) = []"
    and f: "sample_files ''/out.mp4'' = None"
    and w: "env\<lparr>write_videofile := write_videofile env\<rparr> = env"
    by (simp_all add: env_def sample_env_def sample_deck_def sample_files_def)
  have chk: "check_imagemagick env = Inr True"
    "verify_file_type env sample_files ''/in.pptx'' ''officedocument''"
    "makedirs env = None"
    by (simp_all add: env_def sample_checks)
  note t = empty_deck_fails_before_encoding
    [of env "''/in.pptx''" "sample_deck []" "''/out.mp4''" sample_files]
  from t l e have "\<forall>enc. convert_pptx_to_video (env\<lparr>write_videofile := enc\<rparr>)
        ''/in.pptx'' ''/out.mp4'' sample_files
       = (Inl (RuntimeError ''Failed to convert PPTX to video: No valid slides were processed''),
          sample_files)"
    by blast
  then have c: "convert_pptx_to_video env ''/in.pptx'' ''/out.mp4'' sample_files
       = (Inl (RuntimeError ''Failed to convert PPTX to video: No valid slides were processed''),
          sample_files)"
    using w by metis
  from t l e chk f
  have "convert_to_video env ''/in.pptx'' ''/out.mp4'' sample_files =
              (Inl (RuntimeError
                      ''Failed to convert PPTX to video: No valid slides were processed''),
               remove_output env ''/out.mp4'' sample_files)
        \<and> snd (convert_to_video env ''/in.pptx'' ''/out.mp4'' sample_files) = sample_files"
    by blast
  then have r: "convert_to_video env ''/in.pptx'' ''/out.mp4'' sample_files =
              (Inl (RuntimeError
                      ''Failed to convert PPTX to video: No valid slides were processed''),
               remove_output env ''/out.mp4'' sample_files)"
    and "snd (convert_to_video env ''/in.pptx'' ''/out.mp4'' sample_files) = sample_files"
    by blast+
  moreover from r have "fst (convert_to_video env ''/in.pptx'' ''/out.mp4'' sample_files)
       = Inl (RuntimeError ''Failed to convert PPTX to video: No valid slides were processed'')"
    by simp
  ultimately show ?thesis
    using l e f c
    unfolding env_def by blast
qed


subsection \<open>Rounding\<close>

lemma pow2_pos: "0 < pow2 e" by (simp add: pow2_def)

lemma pow2_diff: "pow2 (int m - int n) = 2 ^ m / 2 ^ n"
proof (cases "n \<le> m")
  case True
  then have "nat (int m - int n) = m - n" by simp
  with True show ?thesis by (simp add: pow2_def power_diff)
next
  case False
  then have "nat (- (int m - int n)) = n - m" by simp
  with False show ?thesis by (simp add: pow2_def power_diff)
qed

lemma round_half_even_err: "\<bar>of_int (round_half_even x) - x\<bar> \<le> 1 / 2"
proof -
  have "of_int \<lfloor>x\<rfloor> \<le> x" "x < of_int \<lfloor>x\<rfloor> + 1" by linarith+
  then show ?thesis
    unfolding round_half_even_def Let_def by (auto simp: abs_le_iff)
qed

lemma ilog2_lower:
  assumes "x \<noteq> 0"
  shows "pow2 (ilog2 x) \<le> \<bar>x\<bar>"
proof -
  obtain a b where q: "quotient_of \<bar>x\<bar> = (a, b)" by (cases "quotient_of \<bar>x\<bar>")
  then have b: "0 < b" by (rule quotient_of_denom_pos)
  have x: "\<bar>x\<bar> = of_int a / of_int b" using q by (rule quotient_of_div)
  have "0 < \<bar>x\<bar>" using assms by simp
  with x b have a: "0 < a" by (simp add: zero_less_divide_iff)
  define la lb where "la = nat (bitlen a)" and "lb = nat (bitlen b)"
  have la: "bitlen a = int la" and lb: "bitlen b = int lb"
    by (simp_all add: la_def lb_def bitlen_nonneg)
  have "2 ^ nat (bitlen a - 1) \<le> a" using bitlen_bounds [OF a] by simp
  moreover have "0 < la" using a la bitlen_eq_zero_iff [of a] by (cases la) auto
  ultimately have alow: "(2::int) ^ (la - 1) \<le> a" by (simp add: la nat_diff_distrib')
  have bup: "b < 2 ^ lb" using bitlen_bounds [OF b] by (simp add: lb_def)
  have "(2::rat) ^ (la - 1) \<le> of_int a"
    using alow by (metis of_int_le_iff of_int_numeral of_int_power)
  moreover have "(of_int b :: rat) \<le> 2 ^ lb"
    using bup by (metis less_imp_le of_int_le_iff of_int_numeral of_int_power)
  ultimately have "(2::rat) ^ (la - 1) / 2 ^ lb \<le> of_int a / of_int b"
    using b a by (intro frac_le) simp_all
  moreover have "pow2 (int la - int lb - 1) = 2 ^ (la - 1) / 2 ^ lb"
    using \<open>0 < la\<close> pow2_diff [of "la - 1" lb] by (simp add: of_nat_diff algebra_simps)
  ultimately have low: "pow2 (bitlen a - bitlen b - 1) \<le> \<bar>x\<bar>"
    by (simp add: la lb x)
  show ?thesis
    unfolding ilog2_def q Let_def prod.case using low by simp
qed

lemma float_round_err: "\<bar>float_round x - x\<bar> \<le> \<bar>x\<bar> / 2 ^ 53"
proof (cases "x = 0")
  case True
  then show ?thesis by (simp add: float_round_def)
next
  case False
  define u where "u = pow2 (ilog2 x) / 2 ^ 52"
  have u: "0 < u" by (simp add: u_def pow2_pos)
  have "\<bar>of_int (round_half_even (x / u)) - x / u\<bar> \<le> 1 / 2"
    by (rule round_half_even_err)
  then have "\<bar>of_int (round_half_even (x / u)) - x / u\<bar> * u \<le> 1 / 2 * u"
    using u by (intro mult_right_mono) simp_all
  moreover have "\<bar>of_int (round_half_even (x / u)) - x / u\<bar> * u
      = \<bar>of_int (round_half_even (x / u)) * u - x\<bar>"
  proof -
    have "\<bar>of_int (round_half_even (x / u)) - x / u\<bar> * u
        = \<bar>(of_int (round_half_even (x / u)) - x / u) * u\<bar>"
      using u by (simp add: abs_mult)
    also have "(of_int (round_half_even (x / u)) - x / u) * u
        = of_int (round_half_even (x / u)) * u - x"
      using u by (simp add: left_diff_distrib)
    finally show ?thesis .
  qed
  moreover have "u \<le> \<bar>x\<bar> / 2 ^ 52"
    unfolding u_def using ilog2_lower [OF False] by (simp add: divide_right_mono)
  ultimately have "\<bar>of_int (round_half_even (x / u)) * u - x\<bar> \<le> \<bar>x\<bar> / 2 ^ 53"
    by simp
  then show ?thesis using False by (simp add: float_round_def u_def Let_def)
qed

lemma float_to_int_err: "\<bar>of_int (float_to_int x) - x\<bar> < 1"
  unfolding float_to_int_def by (auto simp: abs_less_iff; linarith)

lemma emu_to_pixel_err:
  "\<bar>of_int (emu_to_pixel v whole out) - (of_int v / of_int whole * of_int out :: rat)\<bar>
     < 1 + \<bar>of_int v / of_int whole * of_int out :: rat\<bar> / 2 ^ 51"
proof -
  define q :: rat where "q = of_int v / of_int whole"
  define E where "E = q * of_int out"
  define f1 where "f1 = float_round q"
  define p where "p = f1 * of_int out"
  define f2 where "f2 = float_round p"
  define eps :: rat where "eps = 1 / 2 ^ 53"
  have eps: "0 < eps" "eps \<le> 1" "4 * eps = 1 / 2 ^ 51" by (simp_all add: eps_def)
  have a: "\<bar>f1 - q\<bar> \<le> \<bar>q\<bar> * eps"
    using float_round_err [of q] by (simp add: f1_def eps_def)
  have "\<bar>p - E\<bar> = \<bar>f1 - q\<bar> * \<bar>of_int out\<bar>"
    by (simp add: p_def E_def abs_mult [symmetric] left_diff_distrib)
  also have "\<dots> \<le> \<bar>q\<bar> * eps * \<bar>of_int out\<bar>"
    using a by (intro mult_right_mono) simp_all
  also have "\<dots> = \<bar>E\<bar> * eps"
    by (simp add: E_def abs_mult)
  finally have b: "\<bar>p - E\<bar> \<le> \<bar>E\<bar> * eps" .
  have c: "\<bar>p\<bar> \<le> \<bar>E\<bar> + \<bar>E\<bar> * eps"
    using b by linarith
  have "\<bar>f2 - p\<bar> \<le> \<bar>p\<bar> * eps"
    using float_round_err [of p] by (simp add: f2_def eps_def)
  also have "\<dots> \<le> (\<bar>E\<bar> + \<bar>E\<bar> * eps) * eps"
    using c eps by (intro mult_right_mono) simp_all
  also have "\<dots> \<le> (\<bar>E\<bar> + \<bar>E\<bar>) * eps"
  proof -
    have "\<bar>E\<bar> * eps \<le> \<bar>E\<bar> * 1"
      using eps by (intro mult_left_mono) simp_all
    then show ?thesis using eps by (intro mult_right_mono) simp_all
  qed
  finally have d: "\<bar>f2 - p\<bar> \<le> 2 * \<bar>E\<bar> * eps" by simp
  have "0 \<le> \<bar>E\<bar> * eps" using eps by simp
  with b d have e: "\<bar>f2 - E\<bar> \<le> \<bar>E\<bar> * (4 * eps)"
    by (simp add: algebra_simps)
  have "\<bar>of_int (float_to_int f2) - f2\<bar> < 1" by (rule float_to_int_err)
  with e have "\<bar>of_int (float_to_int f2) - E\<bar> < 1 + \<bar>E\<bar> * (4 * eps)"
    by linarith
  then show ?thesis
    unfolding eps(3) by (simp only: emu_to_pixel_def f2_def p_def f1_def q_def E_def) simp
qed


subsection \<open>Geometry\<close>

lemma box_pixels_Val:
  "slide_width_emus \<noteq> 0 \<Longrightarrow> slide_height_emus \<noteq> 0 \<Longrightarrow>
     box_pixels (Some l) (Some t) (Some bw) (Some bh) slide_width_emus slide_height_emus
       width height =
     Inr (emu_to_pixel l slide_width_emus width, emu_to_pixel t slide_height_emus height,
          emu_to_pixel bw slide_width_emus width, emu_to_pixel bh slide_height_emus height)"
  by (simp add: box_pixels_def to_pixels_def sum_bind_def)

lemma table_clips_ignores_geometry:
  "table_clips width height d
     (s\<lparr>shape_left := a, shape_top := b, shape_width := c, shape_height := e\<rparr>)
     = table_clips width height d s"
  by (simp add: table_clips_def)

text \<open>
  Claim C4, as stated, has the pixel geometry of every shape obtained by scaling its
  left, top, width and height. A table one inch square, placed one inch from the
  top-left corner of a 10 in by 7.5 in deck, would scale to the box (192, 144, 192, 144);
  its two cells are drawn over the whole 1920 by 1080 frame instead.
\<close>

theorem table_ignores_its_geometry_counterexample:
  "render_shape 1920 1080 (5 / 2) 9144000 6858000
     (table_shape\<lparr>shape_table := Val \<lparr>table_rows = [[''a'', ''b'']], table_columns = 2\<rparr>\<rparr>)
     = (None,
        [layer 1920 1080
           [Rectangle 0 0 960 1080 (RGBA 255 255 255 255) (Some (RGBA 0 0 0 255)),
            DrawText 5 5 ''a'' 24 (RGBA 0 0 0 255),
            Rectangle 960 0 1920 1080 (RGBA 255 255 255 255) (Some (RGBA 0 0 0 255)),
            DrawText 965 5 ''b'' 24 (RGBA 0 0 0 255)] (5 / 2)])
   \<and> shape_left table_shape = Val 914400 \<and> shape_top table_shape = Val 914400
   \<and> shape_width table_shape = Val 914400 \<and> shape_height table_shape = Val 914400
   \<and> box_pixels (Some 914400) (Some 914400) (Some 914400) (Some 914400) 9144000 6858000
        1920 1080 = Inr (192, 144, 192, 144)"
proof -
  have "render_shape 1920 1080 (5 / 2) 9144000 6858000
     (table_shape\<lparr>shape_table := Val \<lparr>table_rows = [[''a'', ''b'']], table_columns = 2\<rparr>\<rparr>)
     = (None,
        [layer 1920 1080
           [Rectangle 0 0 960 1080 (RGBA 255 255 255 255) (Some (RGBA 0 0 0 255)),
            DrawText 5 5 ''a'' 24 (RGBA 0 0 0 255),
            Rectangle 960 0 1920 1080 (RGBA 255 255 255 255) (Some (RGBA 0 0 0 255)),
            DrawText 965 5 ''b'' 24 (RGBA 0 0 0 255)] (5 / 2)])"
    by code_simp
  moreover have "box_pixels (Some 914400) (Some 914400) (Some 914400) (Some 914400)
        9144000 6858000 1920 1080 = Inr (192, 144, 192, 144)"
    by code_simp
  ultimately show ?thesis
    by (simp add: table_shape_def square_shape_def)
qed

text \<open>
  Claim C4, amended. In a deck whose native width and height are not zero, a shape
  with position \<open>(l, t)\<close> and size \<open>(bw, bh)\<close> is drawn with the same conversion
  \<^verbatim>\<open>int((coord / whole) * out)\<close> of all four numbers where it is drawn as a solid fill
  rectangle, as a static picture or as an animated picture. A picture is drawn only
  when its converted width and height are at least one pixel: otherwise resizing
  raises and the picture is skipped. The text runs of a shape are placed at the
  converted left and top (width and height are not read), and a table is laid out
  on the whole frame whatever the position and size of its shape. The conversion is
  the exact quotient up to the truncation to an integer and the rounding of the two
  floating-point operations: it differs from \<open>coord / whole * out\<close> by less than
  \<open>1 + |coord / whole * out| / 2\<^sup>5\<^sup>1\<close>.
\<close>

theorem geometry_is_scaled_where_it_is_read:
  "slide_width_emus \<noteq> 0 \<longrightarrow> slide_height_emus \<noteq> 0 \<longrightarrow>
   shape_left s = Val l \<longrightarrow> shape_top s = Val t \<longrightarrow>
   shape_width s = Val bw \<longrightarrow> shape_height s = Val bh \<longrightarrow>
     (\<forall>f cr cg cb.
        shape_fill s = Val f \<longrightarrow> fill_type f = Some FILL_SOLID \<longrightarrow>
        fore_rgb f = Val (cr, cg, cb) \<longrightarrow>
          fill_clips width height d slide_width_emus slide_height_emus s =
            Inr [layer width height
                   [Rectangle (emu_to_pixel l slide_width_emus width)
                      (emu_to_pixel t slide_height_emus height)
                      (emu_to_pixel l slide_width_emus width
                         + emu_to_pixel bw slide_width_emus width)
                      (emu_to_pixel t slide_height_emus height
                         + emu_to_pixel bh slide_height_emus height)
                      (RGBA cr cg cb 255) None] d])
     \<and> (\<forall>blob.
          shape_image s = Val (StaticImage blob) \<longrightarrow>
            (1 \<le> emu_to_pixel bw slide_width_emus width \<longrightarrow>
             1 \<le> emu_to_pixel bh slide_height_emus height \<longrightarrow>
               picture_clips width height d slide_width_emus slide_height_emus s =
                 Inr [layer width height
                        [Paste blob (emu_to_pixel l slide_width_emus width)
                           (emu_to_pixel t slide_height_emus height)
                           (emu_to_pixel bw slide_width_emus width)
                           (emu_to_pixel bh slide_height_emus height)] d])
            \<and> (emu_to_pixel bw slide_width_emus width < 1
                \<or> emu_to_pixel bh slide_height_emus height < 1 \<longrightarrow>
               picture_clips width height d slide_width_emus slide_height_emus s =
                 Inl ImageValueError))
     \<and> (\<forall>blob infos.
          shape_image s = Val (AnimatedGif blob infos) \<longrightarrow> infos \<noteq> [] \<longrightarrow>
            (1 \<le> emu_to_pixel bw slide_width_emus width \<longrightarrow>
             1 \<le> emu_to_pixel bh slide_height_emus height \<longrightarrow>
               (\<exists>durations.
                  picture_clips width height d slide_width_emus slide_height_emus s =
                    Inr [ImageSequenceClip
                           (map (\<lambda>k. Resized blob k
                                    (emu_to_pixel bw slide_width_emus width,
                                     emu_to_pixel bh slide_height_emus height))
                              [0..<length infos])
                           durations
                           (emu_to_pixel l slide_width_emus width,
                            emu_to_pixel t slide_height_emus height) d]))
            \<and> (emu_to_pixel bw slide_width_emus width < 1
                \<or> emu_to_pixel bh slide_height_emus height < 1 \<longrightarrow>
               picture_clips width height d slide_width_emus slide_height_emus s =
                 Inl ImageValueError))
     \<and> (\<forall>(r :: run) ops.
          strip (run_text r) \<noteq> [] \<longrightarrow>
            draw_runs width height slide_width_emus slide_height_emus s [r] ops =
              Inr (ops @ [DrawText (emu_to_pixel l slide_width_emus width)
                            (emu_to_pixel t slide_height_emus height)
                            (strip (run_text r)) (font_pixels r) (get_font_color r)]))
     \<and> (\<forall>a b c e.
          table_clips width height d
            (s\<lparr>shape_left := a, shape_top := b, shape_width := c, shape_height := e\<rparr>)
            = table_clips width height d s)
     \<and> (\<forall>v whole out.
          \<bar>of_int (emu_to_pixel v whole out) - (of_int v / of_int whole * of_int out :: rat)\<bar>
            < 1 + \<bar>of_int v / of_int whole * of_int out :: rat\<bar> / 2 ^ 51)"
proof (intro impI)
  assume nz: "slide_width_emus \<noteq> 0" "slide_height_emus \<noteq> 0"
    and g: "shape_left s = Val l" "shape_top s = Val t"
      "shape_width s = Val bw" "shape_height s = Val bh"
  have box: "picture_box width height slide_width_emus slide_height_emus s =
      Inr (emu_to_pixel l slide_width_emus width, emu_to_pixel t slide_height_emus height,
           emu_to_pixel bw slide_width_emus width, emu_to_pixel bh slide_height_emus height)"
    using nz g by (simp add: picture_box_def attr_or_def box_pixels_Val)
  have fill: "fill_clips width height d slide_width_emus slide_height_emus s =
            Inr [layer width height
                   [Rectangle (emu_to_pixel l slide_width_emus width)
                      (emu_to_pixel t slide_height_emus height)
                      (emu_to_pixel l slide_width_emus width
                         + emu_to_pixel bw slide_width_emus width)
                      (emu_to_pixel t slide_height_emus height
                         + emu_to_pixel bh slide_height_emus height)
                      (RGBA cr cg cb 255) None] d]"
    if "shape_fill s = Val f" "fill_type f = Some FILL_SOLID" "fore_rgb f = Val (cr, cg, cb)"
    for f cr cg cb
    using nz g that by (simp add: fill_clips_def attr_or_def box_pixels_Val sum_bind_def)
  have static_ok: "picture_clips width height d slide_width_emus slide_height_emus s =
                 Inr [layer width height
                        [Paste blob (emu_to_pixel l slide_width_emus width)
                           (emu_to_pixel t slide_height_emus height)
                           (emu_to_pixel bw slide_width_emus width)
                           (emu_to_pixel bh slide_height_emus height)] d]"
    if "shape_image s = Val (StaticImage blob)"
      "1 \<le> emu_to_pixel bw slide_width_emus width"
      "1 \<le> emu_to_pixel bh slide_height_emus height" for blob
    using that by (simp add: picture_clips_def box sum_bind_def resize_raises_def)
  have static_bad: "picture_clips width height d slide_width_emus slide_height_emus s =
                 Inl ImageValueError"
    if "shape_image s = Val (StaticImage blob)"
      "emu_to_pixel bw slide_width_emus width < 1
         \<or> emu_to_pixel bh slide_height_emus height < 1" for blob
    using that by (simp add: picture_clips_def box sum_bind_def resize_raises_def)
  have gif_ok: "\<exists>durations.
                  picture_clips width height d slide_width_emus slide_height_emus s =
                    Inr [ImageSequenceClip
                           (map (\<lambda>k. Resized blob k
                                    (emu_to_pixel bw slide_width_emus width,
                                     emu_to_pixel bh slide_height_emus height))
                              [0..<length infos])
                           durations
                           (emu_to_pixel l slide_width_emus width,
                            emu_to_pixel t slide_height_emus height) d]"
    if "shape_image s = Val (AnimatedGif blob infos)" "infos \<noteq> []"
      "1 \<le> emu_to_pixel bw slide_width_emus width"
      "1 \<le> emu_to_pixel bh slide_height_emus height" for blob infos
    using that by (simp add: picture_clips_def box sum_bind_def resize_raises_def)
  have gif_bad: "picture_clips width height d slide_width_emus slide_height_emus s =
                 Inl ImageValueError"
    if "shape_image s = Val (AnimatedGif blob infos)" "infos \<noteq> []"
      "emu_to_pixel bw slide_width_emus width < 1
         \<or> emu_to_pixel bh slide_height_emus height < 1" for blob infos
    using that by (simp add: picture_clips_def box sum_bind_def resize_raises_def)
  have runs: "draw_runs width height slide_width_emus slide_height_emus s [r] ops =
              Inr (ops @ [DrawText (emu_to_pixel l slide_width_emus width)
                            (emu_to_pixel t slide_height_emus height)
                            (strip (run_text r)) (font_pixels r) (get_font_color r)])"
    if "strip (run_text r) \<noteq> []" for r :: run and ops
    using nz g that by (simp add: attr_or_def to_pixels_def sum_bind_def Let_def)
  show "(\<forall>f cr cg cb.
        shape_fill s = Val f \<longrightarrow> fill_type f = Some FILL_SOLID \<longrightarrow>
        fore_rgb f = Val (cr, cg, cb) \<longrightarrow>
          fill_clips width height d slide_width_emus slide_height_emus s =
            Inr [layer width height
                   [Rectangle (emu_to_pixel l slide_width_emus width)
                      (emu_to_pixel t slide_height_emus height)
                      (emu_to_pixel l slide_width_emus width
                         + emu_to_pixel bw slide_width_emus width)
                      (emu_to_pixel t slide_height_emus height
                         + emu_to_pixel bh slide_height_emus height)
                      (RGBA cr cg cb 255) None] d])
     \<and> (\<forall>blob.
          shape_image s = Val (StaticImage blob) \<longrightarrow>
            (1 \<le> emu_to_pixel bw slide_width_emus width \<longrightarrow>
             1 \<le> emu_to_pixel bh slide_height_emus height \<longrightarrow>
               picture_clips width height d slide_width_emus slide_height_emus s =
                 Inr [layer width height
                        [Paste blob (emu_to_pixel l slide_width_emus width)
                           (emu_to_pixel t slide_height_emus height)
                           (emu_to_pixel bw slide_width_emus width)
                           (emu_to_pixel bh slide_height_emus height)] d])
            \<and> (emu_to_pixel bw slide_width_emus width < 1
                \<or> emu_to_pixel bh slide_height_emus height < 1 \<longrightarrow>
               picture_clips width height d slide_width_emus slide_height_emus s =
                 Inl ImageValueError))
     \<and> (\<forall>blob infos.
          shape_image s = Val (AnimatedGif blob infos) \<longrightarrow> infos \<noteq> [] \<longrightarrow>
            (1 \<le> emu_to_pixel bw slide_width_emus width \<longrightarrow>
             1 \<le> emu_to_pixel bh slide_height_emus height \<longrightarrow>
               (\<exists>durations.
                  picture_clips width height d slide_width_emus slide_height_emus s =
                    Inr [ImageSequenceClip
                           (map (\<lambda>k. Resized blob k
                                    (emu_to_pixel bw slide_width_emus width,
                                     emu_to_pixel bh slide_height_emus height))
                              [0..<length infos])
                           durations
                           (emu_to_pixel l slide_width_emus width,
                            emu_to_pixel t slide_height_emus height) d]))
            \<and> (emu_to_pixel bw slide_width_emus width < 1
                \<or> emu_to_pixel bh slide_height_emus height < 1 \<longrightarrow>
               picture_clips width height d slide_width_emus slide_height_emus s =
                 Inl ImageValueError))
     \<and> (\<forall>(r :: run) ops.
          strip (run_text r) \<noteq> [] \<longrightarrow>
            draw_runs width height slide_width_emus slide_height_emus s [r] ops =
              Inr (ops @ [DrawText (emu_to_pixel l slide_width_emus width)
                            (emu_to_pixel t slide_height_emus height)
                            (strip (run_text r)) (font_pixels r) (get_font_color r)]))
     \<and> (\<forall>a b c e.
          table_clips width height d
            (s\<lparr>shape_left := a, shape_top := b, shape_width := c, shape_height := e\<rparr>)
            = table_clips width height d s)
     \<and> (\<forall>v whole out.
          \<bar>of_int (emu_to_pixel v whole out) - (of_int v / of_int whole * of_int out :: rat)\<bar>
            < 1 + \<bar>of_int v / of_int whole * of_int out :: rat\<bar> / 2 ^ 51)"
  proof (intro conjI allI impI)
    show "\<bar>of_int (emu_to_pixel v whole out) - (of_int v / of_int whole * of_int out :: rat)\<bar>
            < 1 + \<bar>of_int v / of_int whole * of_int out :: rat\<bar> / 2 ^ 51" for v whole out
      by (rule emu_to_pixel_err)
  qed (blast intro: fill static_ok static_bad gif_ok gif_bad runs
         table_clips_ignores_geometry)+
qed

theorem geometry_is_scaled_where_it_is_read_witness:
  "(9144000 :: int) \<noteq> 0 \<and> (6858000 :: int) \<noteq> 0
   \<and> shape_left captioned_picture = Val 914400 \<and> shape_top captioned_picture = Val 914400
   \<and> shape_width captioned_picture = Val 914400 \<and> shape_height captioned_picture = Val 914400
   \<and> shape_fill captioned_picture = Val (solid_fill (255, 0, 0))
   \<and> shape_image captioned_picture = Val (StaticImage [137, 80, 78, 71])
   \<and> (1 :: int) \<le> emu_to_pixel 914400 9144000 1920
   \<and> (1 :: int) \<le> emu_to_pixel 914400 6858000 1080
   \<and> strip (run_text hello_run) \<noteq> []
   \<and> fill_clips 1920 1080 (5 / 2) 9144000 6858000 captioned_picture
       = Inr [layer 1920 1080 [Rectangle 192 144 384 288 (RGBA 255 0 0 255) None] (5 / 2)]
   \<and> picture_clips 1920 1080 (5 / 2) 9144000 6858000 captioned_picture
       = Inr [layer 1920 1080 [Paste [137, 80, 78, 71] 192 144 192 144] (5 / 2)]
   \<and> draw_runs 1920 1080 9144000 6858000 captioned_picture [hello_run] []
       = Inr [DrawText 192 144 ''Hello'' 18 (RGBA 0 0 0 255)]
   \<and> shape_image (captioned_picture\<lparr>shape_width := Val 0\<rparr>)
       = Val (StaticImage [137, 80, 78, 71])
   \<and> emu_to_pixel 0 9144000 1920 < 1
   \<and> picture_clips 1920 1080 (5 / 2) 9144000 6858000
        (captioned_picture\<lparr>shape_width := Val 0\<rparr>) = Inl ImageValueError"
proof -
  have g: "shape_left captioned_picture = Val 914400" "shape_top captioned_picture = Val 914400"
    "shape_width captioned_picture = Val 914400" "shape_height captioned_picture = Val 914400"
    "shape_fill captioned_picture = Val (solid_fill (255, 0, 0))"
    "shape_image captioned_picture = Val (StaticImage [137, 80, 78, 71])"
    by (simp_all add: captioned_picture_def red_square_def square_shape_def)
  define flat where "flat = captioned_picture\<lparr>shape_width := Val 0\<rparr>"
  have g0: "shape_left flat = Val 914400" "shape_top flat = Val 914400"
    "shape_width flat = Val 0" "shape_height flat = Val 914400"
    "shape_image flat = Val (StaticImage [137, 80, 78, 71])"
    by (simp_all add: flat_def captioned_picture_def red_square_def square_shape_def)
  have f: "fill_type (solid_fill (255, 0, 0)) = Some FILL_SOLID"
    "fore_rgb (solid_fill (255, 0, 0)) = Val (255, 0, 0)"
    by (simp_all add: solid_fill_def)
  have x: "emu_to_pixel 914400 9144000 1920 = 192" by code_simp
  have y: "emu_to_pixel 914400 6858000 1080 = 144" by code_simp
  have z: "emu_to_pixel 0 9144000 1920 = 0" by code_simp
  have pos: "1 \<le> emu_to_pixel 914400 9144000 1920" "1 \<le> emu_to_pixel 914400 6858000 1080"
    by (simp_all add: x y)
  have zero: "emu_to_pixel 0 9144000 1920 < 1 \<or> emu_to_pixel 914400 6858000 1080 < 1"
    by (simp add: z)
  have r: "strip (run_text hello_run) = ''Hello''" by code_simp
  have fp: "font_pixels hello_run = 18" by code_simp
  have fc: "get_font_color hello_run = RGBA 0 0 0 255" by code_simp
  have nz: "(9144000 :: int) \<noteq> 0" "(6858000 :: int) \<noteq> 0" "''Hello'' \<noteq> []" by simp_all
  note t = geometry_is_scaled_where_it_is_read
    [where s = captioned_picture and slide_width_emus = 9144000
       and slide_height_emus = 6858000 and width = 1920 and height = 1080 and d = "5 / 2"
       and l = 914400 and t = 914400 and bw = 914400 and bh = 914400,
     rule_format, OF nz(1) nz(2) g(1) g(2) g(3) g(4)]
  note t0 = geometry_is_scaled_where_it_is_read
    [where s = flat and slide_width_emus = 9144000
       and slide_height_emus = 6858000 and width = 1920 and height = 1080 and d = "5 / 2"
       and l = 914400 and t = 914400 and bw = 0 and bh = 914400,
     rule_format, OF nz(1) nz(2) g0(1) g0(2) g0(3) g0(4)]
  have a: "fill_clips 1920 1080 (5 / 2) 9144000 6858000 captioned_picture
       = Inr [layer 1920 1080 [Rectangle 192 144 384 288 (RGBA 255 0 0 255) None] (5 / 2)]"
    using t [THEN conjunct1, rule_format, OF g(5) f] by (simp add: x y)
  have b: "picture_clips 1920 1080 (5 / 2) 9144000 6858000 captioned_picture
       = Inr [layer 1920 1080 [Paste [137, 80, 78, 71] 192 144 192 144] (5 / 2)]"
    using t [THEN conjunct2, THEN conjunct1, rule_format, OF g(6), THEN conjunct1,
             rule_format, OF pos]
    by (simp add: x y)
  have c: "draw_runs 1920 1080 9144000 6858000 captioned_picture [hello_run] []
       = Inr [DrawText 192 144 ''Hello'' 18 (RGBA 0 0 0 255)]"
    using t [THEN conjunct2, THEN conjunct2, THEN conjunct2, THEN conjunct1, rule_format,
             of hello_run "[]"] nz(3)
    by (simp add: x y r fp fc)
  have e: "picture_clips 1920 1080 (5 / 2) 9144000 6858000 flat = Inl ImageValueError"
    using t0 [THEN conjunct2, THEN conjunct1, rule_format, OF g0(5), THEN conjunct2,
              rule_format, OF zero] .
  show ?thesis
    using g g0(5) pos a b c e r z unfolding flat_def by simp
qed

end
